theory Spec2Isabelle
  imports Complex_Main "HOL-Library.Char_ord" "HOL-Library.List_Lexorder"
begin

section \<open>Time Manager: the scheduling and balance engine\<close>

text \<open>
  A shallow embedding of \<^verbatim>\<open>types.ts\<close> and of the state module (the file that holds
  \<^verbatim>\<open>appData\<close>, \<^verbatim>\<open>currentMonday\<close> and the exported operations).

  Conventions of the model:
  \<^item> A JavaScript number that holds hours is the rational it denotes (\<^typ>\<open>rat\<close>), and the
    arithmetic on hours is that of IEEE 754 double precision: each operation rounds its
    exact result to the nearest double, a tie to the even one. Results beyond the largest
    double, infinities and NaN are not modelled. Slot indices, week numbers and
    percentages are integers.
  \<^item> Strings are compared by code unit, which is what \<^verbatim>\<open>>=\<close> does in the source; the
    comparator \<^verbatim>\<open>localeCompare\<close> is taken to agree with it on week keys.
  \<^item> Identifiers are natural numbers and \<^verbatim>\<open>generateId\<close> is a counter held in the
    state: the host's \<^verbatim>\<open>crypto.randomUUID\<close> is assumed never to repeat a value.
  \<^item> The module variables \<^verbatim>\<open>appData\<close> and \<^verbatim>\<open>currentMonday\<close> form the state record; an
    operation takes the state and returns the new one. Subscribers and the debounced
    writes to storage do not change that state and are left out.
  \<^item> \<^verbatim>\<open>getCurrentWeekData\<close> hands out the week object held in \<^verbatim>\<open>appData.weeks\<close> when there
    is one and a new object otherwise; every operation that changes the object it got
    also passes it to \<^verbatim>\<open>updateWeekInState\<close>, or changes it to an equal value, so that
    working on a copy and writing it back gives the same store.
\<close>

subsection \<open>types.ts\<close>

datatype Priority = High | Medium | Low

datatype DayOfWeek = Monday | Tuesday | Wednesday | Thursday | Friday

datatype WeeklyStanding = Over | Under | OnTrack

type_synonym ident = nat

definition DAYS :: "DayOfWeek list" where
  "DAYS = [Monday, Tuesday, Wednesday, Thursday, Friday]"

definition PROJECT_PALETTE_length :: nat where
  "PROJECT_PALETTE_length = 12"

definition START_HOUR :: int where "START_HOUR = 7"
definition END_HOUR :: int where "END_HOUR = 19"
definition SLOT_MINUTES :: int where "SLOT_MINUTES = 30"
definition SLOTS_PER_DAY :: int where
  "SLOTS_PER_DAY = (END_HOUR - START_HOUR) * (60 div SLOT_MINUTES)"

record Project =
  p_id :: ident
  p_name :: string
  p_weeklyHourTarget :: rat
  p_priority :: Priority
  p_colorIndex :: nat

record TimeBlock =
  b_id :: ident
  b_projectId :: ident
  b_day :: DayOfWeek
  b_slotIndex :: int

record WeekData =
  w_weekKey :: string
  w_startDate :: string
  w_blocks :: "TimeBlock list"

text \<open>\<^verbatim>\<open>Omit<TimeBlock, "id">\<close>: a block without its identity.\<close>

record TemplateBlock =
  tb_projectId :: ident
  tb_day :: DayOfWeek
  tb_slotIndex :: int

record Template =
  t_id :: ident
  t_name :: string
  t_blocks :: "TemplateBlock list"

record AppData =
  projects :: "Project list"
  weeks :: "WeekData list"
  templates :: "Template list"
  weeklyHourGoal :: rat

record ProjectBalance =
  pb_project :: Project
  pb_weeklyTarget :: rat
  pb_currentWeekLogged :: rat
  pb_carryoverBalance :: rat
  pb_effectiveAvailable :: rat
  pb_percentComplete :: int
  pb_standing :: WeeklyStanding

subsection \<open>The host's numbers\<close>

text \<open>The number of binary digits of a positive integer.\<close>

function bitLength :: "int \<Rightarrow> int" where
  "bitLength n = (if n \<le> 0 then 0 else 1 + bitLength (n div 2))"
  by pat_completeness auto
termination
  by (relation "measure nat") auto

declare bitLength.simps [simp del]

definition pow2 :: "int \<Rightarrow> rat" where
  "pow2 e = (if 0 \<le> e then 2 ^ nat e else 1 / 2 ^ nat (- e))"

text \<open>For \<open>x > 0\<close>, the integer \<open>l\<close> with \<open>2 ^ l \<le> x < 2 ^ (l + 1)\<close>.\<close>

definition log2floor :: "rat \<Rightarrow> int" where
  "log2floor x = (if 1 \<le> x then bitLength \<lfloor>x\<rfloor> - 1 else - bitLength (\<lceil>1 / x\<rceil> - 1))"

definition roundTiesToEven :: "rat \<Rightarrow> int" where
  "roundTiesToEven x =
     (let f = \<lfloor>x\<rfloor>; r = x - of_int f
      in if r < 1 / 2 then f else if 1 / 2 < r then f + 1 else if even f then f else f + 1)"

text \<open>
  The double nearest to \<open>x\<close>: a significand of 53 binary digits, or fewer below the
  smallest normal number, where the spacing of the doubles is \<open>2 ^ - 1074\<close>.
\<close>

definition toDouble :: "rat \<Rightarrow> rat" where
  "toDouble x =
     (if x = 0 then 0
      else (let e = max (log2floor \<bar>x\<bar> - 52) (- 1074)
            in of_int (roundTiesToEven (x / pow2 e)) * pow2 e))"

text \<open>The operators \<^verbatim>\<open>+\<close>, \<^verbatim>\<open>-\<close>, \<^verbatim>\<open>*\<close> and \<^verbatim>\<open>/\<close> on numbers.\<close>

definition dadd :: "rat \<Rightarrow> rat \<Rightarrow> rat" where
  "dadd x y = toDouble (x + y)"

definition dsub :: "rat \<Rightarrow> rat \<Rightarrow> rat" where
  "dsub x y = toDouble (x - y)"

definition dmul :: "rat \<Rightarrow> rat \<Rightarrow> rat" where
  "dmul x y = toDouble (x * y)"

definition ddiv :: "rat \<Rightarrow> rat \<Rightarrow> rat" where
  "ddiv x y = toDouble (x / y)"

subsection \<open>The host's Date object\<close>

text \<open>
  A \<^verbatim>\<open>Date\<close> is its time value, the milliseconds since the epoch. What the local
  calendar makes of a time value depends on the host's time zone, so the methods the
  program calls are a parameter of the model.
\<close>

record calendar =
  getFullYear :: "int \<Rightarrow> int"
  getDay :: "int \<Rightarrow> int"
  getDate :: "int \<Rightarrow> int"
  newDate :: "int \<Rightarrow> int \<Rightarrow> int \<Rightarrow> int"
  setDate :: "int \<Rightarrow> int \<Rightarrow> int"
  setHoursZero :: "int \<Rightarrow> int"
  toISOString :: "int \<Rightarrow> string"

definition msPerDay :: int where
  "msPerDay = 86400000"

fun digits :: "nat \<Rightarrow> string" where
  "digits n = (if n < 10 then [''0123456789'' ! n]
               else digits (n div 10) @ [''0123456789'' ! (n mod 10)])"

declare digits.simps [simp del]

text \<open>\<^verbatim>\<open>Number.prototype.toString\<close> on an integer, and \<^verbatim>\<open>String.prototype.padStart\<close>
  with a one-character filler.\<close>

definition numberToString :: "int \<Rightarrow> string" where
  "numberToString n = (if n < 0 then CHR ''-'' # digits (nat (- n)) else digits (nat n))"

definition padStart :: "nat \<Rightarrow> char \<Rightarrow> string \<Rightarrow> string" where
  "padStart n c s = replicate (n - length s) c @ s"

text \<open>
  The instance for a host in the UTC time zone: the proleptic Gregorian calendar, with
  days counted from 1970-01-01 (a Thursday).
\<close>

definition civil_from_days :: "int \<Rightarrow> int \<times> int \<times> int" where
  "civil_from_days z0 =
     (let z = z0 + 719468;
          era = z div 146097;
          doe = z - era * 146097;
          yoe = (doe - doe div 1460 + doe div 36524 - doe div 146096) div 365;
          doy = doe - (365 * yoe + yoe div 4 - yoe div 100);
          mp = (5 * doy + 2) div 153;
          d = doy - (153 * mp + 2) div 5 + 1;
          m = (if mp < 10 then mp + 3 else mp - 9)
      in (yoe + era * 400 + (if m \<le> 2 then 1 else 0), m, d))"

definition days_from_civil :: "int \<Rightarrow> int \<Rightarrow> int \<Rightarrow> int" where
  "days_from_civil y0 m d =
     (let y = (if m \<le> 2 then y0 - 1 else y0);
          era = y div 400;
          yoe = y - era * 400;
          doy = (153 * (if m > 2 then m - 3 else m + 9) + 2) div 5 + d - 1;
          doe = yoe * 365 + yoe div 4 - yoe div 100 + doy
      in era * 146097 + doe - 719468)"

definition utc_year :: "int \<Rightarrow> int" where
  "utc_year t = fst (civil_from_days (t div msPerDay))"

definition utc_month :: "int \<Rightarrow> int" where
  "utc_month t = fst (snd (civil_from_days (t div msPerDay)))"

definition utc_date :: "int \<Rightarrow> int" where
  "utc_date t = snd (snd (civil_from_days (t div msPerDay)))"

definition utc_day :: "int \<Rightarrow> int" where
  "utc_day t = (t div msPerDay + 4) mod 7"

text \<open>\<^verbatim>\<open>new Date(year, monthIndex, day)\<close>: a year from 0 to 99 means 1900 + year, and a
  month index or day out of range carries over.\<close>

definition utc_newDate :: "int \<Rightarrow> int \<Rightarrow> int \<Rightarrow> int" where
  "utc_newDate year monthIndex day =
     (let yr = (if 0 \<le> year \<and> year \<le> 99 then 1900 + year else year);
          ym = yr + monthIndex div 12;
          mn = monthIndex mod 12
      in (days_from_civil ym (mn + 1) 1 + day - 1) * msPerDay)"

definition utc_setDate :: "int \<Rightarrow> int \<Rightarrow> int" where
  "utc_setDate t n =
     (days_from_civil (utc_year t) (utc_month t) 1 + n - 1) * msPerDay + t mod msPerDay"

definition utc_setHoursZero :: "int \<Rightarrow> int" where
  "utc_setHoursZero t = t - t mod msPerDay"

definition pad :: "nat \<Rightarrow> int \<Rightarrow> string" where
  "pad n v = padStart n CHR ''0'' (numberToString v)"

definition utc_toISOString :: "int \<Rightarrow> string" where
  "utc_toISOString t =
     (let y = utc_year t;
          ms = t mod msPerDay;
          ys = (if 0 \<le> y \<and> y \<le> 9999 then pad 4 y
                else (if y < 0 then CHR ''-'' else CHR ''+'') # pad 6 (abs y))
      in ys @ ''-'' @ pad 2 (utc_month t) @ ''-'' @ pad 2 (utc_date t) @ ''T''
           @ pad 2 (ms div 3600000) @ '':'' @ pad 2 (ms div 60000 mod 60) @ '':''
           @ pad 2 (ms div 1000 mod 60) @ ''.'' @ pad 3 (ms mod 1000) @ ''Z'')"

definition utc :: calendar where
  "utc = \<lparr> getFullYear = utc_year, getDay = utc_day, getDate = utc_date,
           newDate = utc_newDate, setDate = utc_setDate,
           setHoursZero = utc_setHoursZero, toISOString = utc_toISOString \<rparr>"

subsection \<open>Calendar geometry (types.ts)\<close>

definition getMonday :: "calendar \<Rightarrow> int \<Rightarrow> int" where
  "getMonday cal date =
     (let d = date;
          day = getDay cal d;
          diff = getDate cal d - day + (if day = 0 then - 6 else 1);
          d1 = setDate cal d diff
      in setHoursZero cal d1)"

definition getWeekKey :: "calendar \<Rightarrow> int \<Rightarrow> string" where
  "getWeekKey cal monday =
     (let year = getFullYear cal monday;
          jan1 = newDate cal year 0 1;
          days = (monday - jan1) div 86400000;
          weekNum = \<lceil>(of_int (days + getDay cal jan1 + 1) :: rat) / 7\<rceil>
      in numberToString year @ ''-W'' @ padStart 2 CHR ''0'' (numberToString weekNum))"

definition toDateString :: "calendar \<Rightarrow> int \<Rightarrow> string" where
  "toDateString cal date = takeWhile (\<lambda>c. c \<noteq> CHR ''T'') (toISOString cal date)"

subsection \<open>Application state\<close>

record state =
  appData :: AppData
  currentMonday :: int
  nextId :: nat

definition generateId :: "state \<Rightarrow> ident \<times> state" where
  "generateId s = (nextId s, s\<lparr>nextId := Suc (nextId s)\<rparr>)"

text \<open>The values the module variables are initialised with; \<open>now\<close> is the time at which
  the module is loaded.\<close>

definition initial_state :: "calendar \<Rightarrow> int \<Rightarrow> state" where
  "initial_state cal now =
     \<lparr> appData = \<lparr> projects = [], weeks = [], templates = [], weeklyHourGoal = 40 \<rparr>,
       currentMonday = getMonday cal now,
       nextId = 0 \<rparr>"

definition ensureCurrentWeek :: "calendar \<Rightarrow> state \<Rightarrow> state" where
  "ensureCurrentWeek cal s =
     (let key = getWeekKey cal (currentMonday s)
      in if find (\<lambda>w. w_weekKey w = key) (weeks (appData s)) = None
         then s\<lparr>appData := (appData s)\<lparr>weeks := weeks (appData s) @
                  [\<lparr> w_weekKey = key,
                     w_startDate = toDateString cal (currentMonday s),
                     w_blocks = [] \<rparr>]\<rparr>\<rparr>
         else s)"

text \<open>\<open>loaded\<close> is what the storage backend returns, \<open>now\<close> the time of the call.\<close>

definition initState :: "calendar \<Rightarrow> int \<Rightarrow> AppData \<Rightarrow> state \<Rightarrow> state" where
  "initState cal now loaded s =
     (let data = (if weeklyHourGoal loaded = 0 then loaded\<lparr>weeklyHourGoal := 40\<rparr> else loaded);
          s1 = s\<lparr>appData := data\<rparr>;
          s2 = s1\<lparr>currentMonday := getMonday cal now\<rparr>
      in ensureCurrentWeek cal s2)"

subsection \<open>Week navigation\<close>

definition getCurrentWeekKey :: "calendar \<Rightarrow> state \<Rightarrow> string" where
  "getCurrentWeekKey cal s = getWeekKey cal (currentMonday s)"

definition navigateWeek :: "calendar \<Rightarrow> int \<Rightarrow> state \<Rightarrow> state" where
  "navigateWeek cal direction s =
     (let newMonday = setDate cal (currentMonday s) (getDate cal (currentMonday s) + direction * 7)
      in ensureCurrentWeek cal (s\<lparr>currentMonday := newMonday\<rparr>))"

definition goToToday :: "calendar \<Rightarrow> int \<Rightarrow> state \<Rightarrow> state" where
  "goToToday cal now s = ensureCurrentWeek cal (s\<lparr>currentMonday := getMonday cal now\<rparr>)"

subsection \<open>Week data access\<close>

definition getCurrentWeekData :: "calendar \<Rightarrow> state \<Rightarrow> WeekData" where
  "getCurrentWeekData cal s =
     (let key = getWeekKey cal (currentMonday s)
      in case find (\<lambda>w. w_weekKey w = key) (weeks (appData s)) of
           Some w \<Rightarrow> w
         | None \<Rightarrow> \<lparr> w_weekKey = key,
                     w_startDate = toDateString cal (currentMonday s),
                     w_blocks = [] \<rparr>)"

definition getWeekDataByKey :: "string \<Rightarrow> state \<Rightarrow> WeekData option" where
  "getWeekDataByKey weekKey s = find (\<lambda>w. w_weekKey w = weekKey) (weeks (appData s))"

definition getAllWeeks :: "state \<Rightarrow> WeekData list" where
  "getAllWeeks s = weeks (appData s)"

fun findIndex :: "('a \<Rightarrow> bool) \<Rightarrow> 'a list \<Rightarrow> nat option" where
  "findIndex P [] = None"
| "findIndex P (x # xs) = (if P x then Some 0 else map_option Suc (findIndex P xs))"

definition updateWeekInState :: "WeekData \<Rightarrow> state \<Rightarrow> state" where
  "updateWeekInState week s =
     (case findIndex (\<lambda>w. w_weekKey w = w_weekKey week) (weeks (appData s)) of
        Some idx \<Rightarrow> s\<lparr>appData := (appData s)\<lparr>weeks := (weeks (appData s))[idx := week]\<rparr>\<rparr>
      | None \<Rightarrow> s\<lparr>appData := (appData s)\<lparr>weeks := weeks (appData s) @ [week]\<rparr>\<rparr>)"

subsection \<open>Weekly hour goal\<close>

definition setWeeklyHourGoal :: "rat \<Rightarrow> state \<Rightarrow> state" where
  "setWeeklyHourGoal hours s = s\<lparr>appData := (appData s)\<lparr>weeklyHourGoal := hours\<rparr>\<rparr>"

definition getCurrentWeekTotalHours :: "calendar \<Rightarrow> state \<Rightarrow> rat" where
  "getCurrentWeekTotalHours cal s =
     dmul (of_nat (length (w_blocks (getCurrentWeekData cal s)))) (ddiv (of_int SLOT_MINUTES) 60)"

subsection \<open>Project CRUD\<close>

definition getProjectById :: "ident \<Rightarrow> state \<Rightarrow> Project option" where
  "getProjectById ident s = find (\<lambda>p. p_id p = ident) (projects (appData s))"

function nextColorIndex :: "nat list \<Rightarrow> nat \<Rightarrow> nat" where
  "nextColorIndex usedIndices colorIndex =
     (if colorIndex \<in> set usedIndices \<and> colorIndex < PROJECT_PALETTE_length
      then nextColorIndex usedIndices (colorIndex + 1)
      else colorIndex)"
  by pat_completeness auto
termination
  by (relation "measure (\<lambda>(used, c). PROJECT_PALETTE_length - c)") auto

declare nextColorIndex.simps [simp del]

definition addProject :: "string \<Rightarrow> rat \<Rightarrow> Priority \<Rightarrow> state \<Rightarrow> Project \<times> state" where
  "addProject name weeklyHourTarget priority s =
     (let usedIndices = map p_colorIndex (projects (appData s));
          c = nextColorIndex usedIndices 0;
          colorIndex = (if c \<ge> PROJECT_PALETTE_length
                        then length (projects (appData s)) mod PROJECT_PALETTE_length
                        else c);
          (ident, s1) = generateId s;
          project = \<lparr> p_id = ident, p_name = name, p_weeklyHourTarget = weeklyHourTarget,
                      p_priority = priority, p_colorIndex = colorIndex \<rparr>
      in (project, s1\<lparr>appData := (appData s1)\<lparr>projects := projects (appData s1) @ [project]\<rparr>\<rparr>))"

text \<open>\<^verbatim>\<open>Partial<Omit<Project, "id">>\<close>: the fields that are present are assigned.\<close>

record ProjectUpdates =
  u_name :: "string option"
  u_weeklyHourTarget :: "rat option"
  u_priority :: "Priority option"
  u_colorIndex :: "nat option"

definition assignUpdates :: "Project \<Rightarrow> ProjectUpdates \<Rightarrow> Project" where
  "assignUpdates p u =
     p\<lparr> p_name := (case u_name u of Some v \<Rightarrow> v | None \<Rightarrow> p_name p),
        p_weeklyHourTarget :=
          (case u_weeklyHourTarget u of Some v \<Rightarrow> v | None \<Rightarrow> p_weeklyHourTarget p),
        p_priority := (case u_priority u of Some v \<Rightarrow> v | None \<Rightarrow> p_priority p),
        p_colorIndex := (case u_colorIndex u of Some v \<Rightarrow> v | None \<Rightarrow> p_colorIndex p) \<rparr>"

definition updateProject :: "ident \<Rightarrow> ProjectUpdates \<Rightarrow> state \<Rightarrow> state" where
  "updateProject ident updates s =
     (case findIndex (\<lambda>p. p_id p = ident) (projects (appData s)) of
        Some i \<Rightarrow> s\<lparr>appData := (appData s)\<lparr>projects :=
                    (projects (appData s))[i := assignUpdates (projects (appData s) ! i) updates]\<rparr>\<rparr>
      | None \<Rightarrow> s)"

definition deleteProject :: "ident \<Rightarrow> state \<Rightarrow> state" where
  "deleteProject ident s =
     s\<lparr>appData := (appData s)
        \<lparr> projects := filter (\<lambda>p. p_id p \<noteq> ident) (projects (appData s)),
          weeks := map (\<lambda>week. week\<lparr>w_blocks := filter (\<lambda>b. b_projectId b \<noteq> ident) (w_blocks week)\<rparr>)
                     (weeks (appData s)) \<rparr>\<rparr>"

subsection \<open>Time block operations\<close>

definition addTimeBlock ::
  "calendar \<Rightarrow> ident \<Rightarrow> DayOfWeek \<Rightarrow> int \<Rightarrow> state \<Rightarrow> TimeBlock option \<times> state" where
  "addTimeBlock cal projectId day slotIndex s =
     (let week = getCurrentWeekData cal s
      in case find (\<lambda>b. b_day b = day \<and> b_slotIndex b = slotIndex) (w_blocks week) of
           Some existing \<Rightarrow> (None, s)
         | None \<Rightarrow>
             (let (ident, s1) = generateId s;
                  block = \<lparr> b_id = ident, b_projectId = projectId, b_day = day,
                            b_slotIndex = slotIndex \<rparr>;
                  week1 = week\<lparr>w_blocks := w_blocks week @ [block]\<rparr>
              in (Some block, updateWeekInState week1 s1)))"

text \<open>The body of the \<^verbatim>\<open>for\<close> loop of \<^verbatim>\<open>addTimeBlocks\<close>, from \<open>slot\<close> on: the week object,
  the list \<^verbatim>\<open>newBlocks\<close> and the state in which identifiers are generated.\<close>

function addTimeBlocks_loop ::
  "ident \<Rightarrow> DayOfWeek \<Rightarrow> int \<Rightarrow> int \<Rightarrow> WeekData \<Rightarrow> TimeBlock list \<Rightarrow> state
     \<Rightarrow> WeekData \<times> TimeBlock list \<times> state" where
  "addTimeBlocks_loop projectId day slot maxSlot week newBlocks s =
     (if slot \<le> maxSlot then
        (let week1 = week\<lparr>w_blocks :=
                       filter (\<lambda>b. \<not> (b_day b = day \<and> b_slotIndex b = slot)) (w_blocks week)\<rparr>;
             (ident, s1) = generateId s;
             block = \<lparr> b_id = ident, b_projectId = projectId, b_day = day, b_slotIndex = slot \<rparr>
         in addTimeBlocks_loop projectId day (slot + 1) maxSlot
              (week1\<lparr>w_blocks := w_blocks week1 @ [block]\<rparr>) (newBlocks @ [block]) s1)
      else (week, newBlocks, s))"
  by pat_completeness auto
termination
  by (relation "measure (\<lambda>(p, d, slot, maxSlot, w, nb, s). nat (maxSlot + 1 - slot))") auto

declare addTimeBlocks_loop.simps [simp del]

definition addTimeBlocks ::
  "calendar \<Rightarrow> ident \<Rightarrow> DayOfWeek \<Rightarrow> int \<Rightarrow> int \<Rightarrow> state \<Rightarrow> TimeBlock list \<times> state" where
  "addTimeBlocks cal projectId day startSlot endSlot s =
     (let week = getCurrentWeekData cal s;
          minSlot = min startSlot endSlot;
          maxSlot = max startSlot endSlot;
          (week1, newBlocks, s1) = addTimeBlocks_loop projectId day minSlot maxSlot week [] s
      in if length newBlocks > 0 then (newBlocks, updateWeekInState week1 s1)
         else (newBlocks, s1))"

definition removeTimeBlocksInRange ::
  "calendar \<Rightarrow> DayOfWeek \<Rightarrow> int \<Rightarrow> int \<Rightarrow> state \<Rightarrow> state" where
  "removeTimeBlocksInRange cal day startSlot endSlot s =
     (let week = getCurrentWeekData cal s;
          minSlot = min startSlot endSlot;
          maxSlot = max startSlot endSlot;
          before = length (w_blocks week);
          week1 = week\<lparr>w_blocks :=
                    filter (\<lambda>b. \<not> (b_day b = day \<and> b_slotIndex b \<ge> minSlot \<and> b_slotIndex b \<le> maxSlot))
                      (w_blocks week)\<rparr>
      in if length (w_blocks week1) \<noteq> before then updateWeekInState week1 s else s)"

definition removeTimeBlock :: "calendar \<Rightarrow> ident \<Rightarrow> state \<Rightarrow> state" where
  "removeTimeBlock cal blockId s =
     (let week = getCurrentWeekData cal s;
          week1 = week\<lparr>w_blocks := filter (\<lambda>b. b_id b \<noteq> blockId) (w_blocks week)\<rparr>
      in updateWeekInState week1 s)"

definition updateTimeBlockProject :: "calendar \<Rightarrow> ident \<Rightarrow> ident \<Rightarrow> state \<Rightarrow> state" where
  "updateTimeBlockProject cal blockId newProjectId s =
     (let week = getCurrentWeekData cal s
      in case findIndex (\<lambda>b. b_id b = blockId) (w_blocks week) of
           Some i \<Rightarrow>
             updateWeekInState
               (week\<lparr>w_blocks := (w_blocks week)[i := (w_blocks week ! i)\<lparr>b_projectId := newProjectId\<rparr>]\<rparr>) s
         | None \<Rightarrow> s)"

subsection \<open>Rolling balance calculations\<close>

text \<open>\<^verbatim>\<open>Math.round\<close>: the nearest integer, a half rounded up; it is exact on a double.\<close>

definition Math_round :: "rat \<Rightarrow> int" where
  "Math_round x = \<lfloor>x + 1 / 2\<rfloor>"

definition priorityOrder :: "Priority \<Rightarrow> nat" where
  "priorityOrder p = (case p of High \<Rightarrow> 0 | Medium \<Rightarrow> 1 | Low \<Rightarrow> 2)"

definition hoursLoggedIn :: "Project \<Rightarrow> WeekData \<Rightarrow> rat" where
  "hoursLoggedIn project week =
     dmul (of_nat (length (filter (\<lambda>b. b_projectId b = p_id project) (w_blocks week))))
       (ddiv (of_int SLOT_MINUTES) 60)"

text \<open>The \<^verbatim>\<open>for\<close> loop over \<^verbatim>\<open>sortedWeeks\<close>, with its \<^verbatim>\<open>break\<close> and \<^verbatim>\<open>continue\<close>.\<close>

fun carryover_loop :: "string \<Rightarrow> Project \<Rightarrow> WeekData list \<Rightarrow> rat \<Rightarrow> rat" where
  "carryover_loop currentKey project [] carryover = carryover"
| "carryover_loop currentKey project (week # rest) carryover =
     (if w_weekKey week \<ge> currentKey then carryover
      else if length (w_blocks week) = 0 then carryover_loop currentKey project rest carryover
      else carryover_loop currentKey project rest
             (dadd carryover (dsub (p_weeklyHourTarget project) (hoursLoggedIn project week))))"

text \<open>The function mapped over \<^verbatim>\<open>appData.projects\<close>.\<close>

definition projectBalance ::
  "calendar \<Rightarrow> state \<Rightarrow> string \<Rightarrow> WeekData list \<Rightarrow> Project \<Rightarrow> ProjectBalance" where
  "projectBalance cal s currentKey sortedWeeks project =
     (let carryover = carryover_loop currentKey project sortedWeeks 0;
          currentWeek = getCurrentWeekData cal s;
          currentHours = hoursLoggedIn project currentWeek;
          effectiveAvailable = dadd (p_weeklyHourTarget project) carryover;
          percentComplete =
            (if effectiveAvailable > 0
             then Math_round (dmul (ddiv currentHours effectiveAvailable) 100)
             else if currentHours > 0 then 100 else 0);
          tolerance = max (1 / 2) (dmul (p_weeklyHourTarget project) (toDouble (1 / 10)));
          standing =
            (if p_weeklyHourTarget project = 0 then OnTrack
             else if currentHours > dadd (p_weeklyHourTarget project) tolerance then Over
             else if currentHours < dsub (p_weeklyHourTarget project) tolerance then Under
             else OnTrack)
      in \<lparr> pb_project = project,
           pb_weeklyTarget = p_weeklyHourTarget project,
           pb_currentWeekLogged = currentHours,
           pb_carryoverBalance = carryover,
           pb_effectiveAvailable = effectiveAvailable,
           pb_percentComplete = min percentComplete 100,
           pb_standing = standing \<rparr>)"

definition calculateProjectBalances :: "calendar \<Rightarrow> state \<Rightarrow> ProjectBalance list" where
  "calculateProjectBalances cal s =
     (let currentKey = getWeekKey cal (currentMonday s);
          sortedWeeks = sort_key w_weekKey (weeks (appData s));
          balances = map (projectBalance cal s currentKey sortedWeeks) (projects (appData s))
      in sort_key (\<lambda>b. priorityOrder (p_priority (pb_project b))) balances)"

subsection \<open>Templates\<close>

definition stripId :: "TimeBlock \<Rightarrow> TemplateBlock" where
  "stripId b = \<lparr> tb_projectId = b_projectId b, tb_day = b_day b, tb_slotIndex = b_slotIndex b \<rparr>"

definition saveCurrentWeekAsTemplate :: "calendar \<Rightarrow> string \<Rightarrow> state \<Rightarrow> Template \<times> state" where
  "saveCurrentWeekAsTemplate cal name s =
     (let week = getCurrentWeekData cal s;
          (ident, s1) = generateId s;
          template = \<lparr> t_id = ident, t_name = name, t_blocks = map stripId (w_blocks week) \<rparr>
      in (template, s1\<lparr>appData := (appData s1)\<lparr>templates := templates (appData s1) @ [template]\<rparr>\<rparr>))"

text \<open>The \<^verbatim>\<open>for\<close> loop of \<^verbatim>\<open>applyTemplate\<close> over the template's blocks.\<close>

fun applyTemplate_loop ::
  "Project list \<Rightarrow> TemplateBlock list \<Rightarrow> WeekData \<Rightarrow> state \<Rightarrow> WeekData \<times> state" where
  "applyTemplate_loop ps [] week s = (week, s)"
| "applyTemplate_loop ps (tb # rest) week s =
     (if find (\<lambda>p. p_id p = tb_projectId tb) ps \<noteq> None then
        (let (ident, s1) = generateId s;
             block = \<lparr> b_id = ident, b_projectId = tb_projectId tb, b_day = tb_day tb,
                       b_slotIndex = tb_slotIndex tb \<rparr>
         in applyTemplate_loop ps rest (week\<lparr>w_blocks := w_blocks week @ [block]\<rparr>) s1)
      else applyTemplate_loop ps rest week s)"

definition applyTemplate :: "calendar \<Rightarrow> ident \<Rightarrow> state \<Rightarrow> state" where
  "applyTemplate cal templateId s =
     (case find (\<lambda>t. t_id t = templateId) (templates (appData s)) of
        None \<Rightarrow> s
      | Some template \<Rightarrow>
          (let week = getCurrentWeekData cal s;
               week0 = week\<lparr>w_blocks := []\<rparr>;
               (week1, s1) = applyTemplate_loop (projects (appData s)) (t_blocks template) week0 s
           in updateWeekInState week1 s1))"

definition deleteTemplate :: "ident \<Rightarrow> state \<Rightarrow> state" where
  "deleteTemplate templateId s =
     s\<lparr>appData := (appData s)\<lparr>templates := filter (\<lambda>t. t_id t \<noteq> templateId) (templates (appData s))\<rparr>\<rparr>"

subsection \<open>Properties of the store\<close>

text \<open>The slot of a block, and the invariant of a block collection: no two blocks in the
  same slot.\<close>

definition slotOf :: "TimeBlock \<Rightarrow> DayOfWeek \<times> int" where
  "slotOf b = (b_day b, b_slotIndex b)"

definition templateSlotOf :: "TemplateBlock \<Rightarrow> DayOfWeek \<times> int" where
  "templateSlotOf tb = (tb_day tb, tb_slotIndex tb)"

definition slotsUnique :: "TimeBlock list \<Rightarrow> bool" where
  "slotsUnique bs = distinct (map slotOf bs)"

definition blocksAt :: "DayOfWeek \<Rightarrow> int \<Rightarrow> TimeBlock list \<Rightarrow> TimeBlock list" where
  "blocksAt day slotIndex bs = filter (\<lambda>b. b_day b = day \<and> b_slotIndex b = slotIndex) bs"

definition blocksOfDay :: "DayOfWeek \<Rightarrow> TimeBlock list \<Rightarrow> TimeBlock list" where
  "blocksOfDay day bs = filter (\<lambda>b. b_day b = day) bs"

definition inRange :: "DayOfWeek \<Rightarrow> int \<Rightarrow> int \<Rightarrow> TimeBlock \<Rightarrow> bool" where
  "inRange day lo hi b = (b_day b = day \<and> lo \<le> b_slotIndex b \<and> b_slotIndex b \<le> hi)"

definition projectExists :: "state \<Rightarrow> ident \<Rightarrow> bool" where
  "projectExists s ident = (\<exists>p \<in> set (projects (appData s)). p_id p = ident)"

definition noOrphans :: "state \<Rightarrow> bool" where
  "noOrphans s =
     (\<forall>w \<in> set (weeks (appData s)). \<forall>b \<in> set (w_blocks w). projectExists s (b_projectId b))"

text \<open>At most one block in any slot, in every week of the store and in the week that
  \<^verbatim>\<open>getCurrentWeekData\<close> returns.\<close>

definition slotInvariant :: "calendar \<Rightarrow> state \<Rightarrow> bool" where
  "slotInvariant cal s =
     ((\<forall>week \<in> set (weeks (appData s)). \<forall>day slotIndex.
         length (blocksAt day slotIndex (w_blocks week)) \<le> 1) \<and>
      (\<forall>day slotIndex.
         length (blocksAt day slotIndex (w_blocks (getCurrentWeekData cal s))) \<le> 1))"

text \<open>What the storage backend may hand to \<^verbatim>\<open>initState\<close>: data whose weeks and templates
  were written by the program, each with its slots distinct.\<close>

definition storedDataOk :: "AppData \<Rightarrow> bool" where
  "storedDataOk d =
     ((\<forall>w \<in> set (weeks d). slotsUnique (w_blocks w)) \<and>
      (\<forall>t \<in> set (templates d). distinct (map templateSlotOf (t_blocks t))))"

text \<open>The states of a run: the initial values of the module variables, and from there
  any sequence of calls of the exported operations that change the state.\<close>

inductive reachable :: "calendar \<Rightarrow> state \<Rightarrow> bool" for cal :: calendar where
  r_start: "reachable cal (initial_state cal now)"
| r_initState: "reachable cal s \<Longrightarrow> storedDataOk loaded \<Longrightarrow> reachable cal (initState cal now loaded s)"
| r_navigateWeek: "reachable cal s \<Longrightarrow> reachable cal (navigateWeek cal direction s)"
| r_goToToday: "reachable cal s \<Longrightarrow> reachable cal (goToToday cal now s)"
| r_setWeeklyHourGoal: "reachable cal s \<Longrightarrow> reachable cal (setWeeklyHourGoal hours s)"
| r_addProject: "reachable cal s \<Longrightarrow> reachable cal (snd (addProject name target priority s))"
| r_updateProject: "reachable cal s \<Longrightarrow> reachable cal (updateProject ident updates s)"
| r_deleteProject: "reachable cal s \<Longrightarrow> reachable cal (deleteProject ident s)"
| r_addTimeBlock: "reachable cal s \<Longrightarrow> reachable cal (snd (addTimeBlock cal projectId day slotIndex s))"
| r_addTimeBlocks:
    "reachable cal s \<Longrightarrow> reachable cal (snd (addTimeBlocks cal projectId day startSlot endSlot s))"
| r_removeTimeBlocksInRange:
    "reachable cal s \<Longrightarrow> reachable cal (removeTimeBlocksInRange cal day startSlot endSlot s)"
| r_removeTimeBlock: "reachable cal s \<Longrightarrow> reachable cal (removeTimeBlock cal blockId s)"
| r_updateTimeBlockProject:
    "reachable cal s \<Longrightarrow> reachable cal (updateTimeBlockProject cal blockId newProjectId s)"
| r_saveCurrentWeekAsTemplate:
    "reachable cal s \<Longrightarrow> reachable cal (snd (saveCurrentWeekAsTemplate cal name s))"
| r_applyTemplate: "reachable cal s \<Longrightarrow> reachable cal (applyTemplate cal templateId s)"
| r_deleteTemplate: "reachable cal s \<Longrightarrow> reachable cal (deleteTemplate templateId s)"

text \<open>The blocks the loop of \<^verbatim>\<open>addTimeBlocks\<close> creates for a list of slots, the first with
  identifier \<open>n\<close>.\<close>

fun freshBlocks :: "nat \<Rightarrow> ident \<Rightarrow> DayOfWeek \<Rightarrow> int list \<Rightarrow> TimeBlock list" where
  "freshBlocks n projectId day [] = []"
| "freshBlocks n projectId day (i # rest) =
     \<lparr> b_id = n, b_projectId = projectId, b_day = day, b_slotIndex = i \<rparr>
       # freshBlocks (Suc n) projectId day rest"

text \<open>The blocks the loop of \<^verbatim>\<open>applyTemplate\<close> creates for a list of template entries,
  the first with identifier \<open>n\<close>.\<close>

fun freshFromTemplate :: "nat \<Rightarrow> TemplateBlock list \<Rightarrow> TimeBlock list" where
  "freshFromTemplate n [] = []"
| "freshFromTemplate n (tb # rest) =
     \<lparr> b_id = n, b_projectId = tb_projectId tb, b_day = tb_day tb, b_slotIndex = tb_slotIndex tb \<rparr>
       # freshFromTemplate (Suc n) rest"

text \<open>No block of the store has an identifier that \<^verbatim>\<open>generateId\<close> has yet to hand out.\<close>

definition blockIdsBelow :: "state \<Rightarrow> bool" where
  "blockIdsBelow s =
     (\<forall>w \<in> set (weeks (appData s)). \<forall>b \<in> set (w_blocks w). b_id b < nextId s)"

text \<open>The weeks that count towards the carryover: those whose key is below the current
  week's key and that hold at least one block.\<close>

definition priorWeeks :: "calendar \<Rightarrow> state \<Rightarrow> WeekData list" where
  "priorWeeks cal s =
     filter (\<lambda>w. w_weekKey w < getWeekKey cal (currentMonday s) \<and> w_blocks w \<noteq> [])
       (weeks (appData s))"

definition balancesOf :: "calendar \<Rightarrow> state \<Rightarrow> Project \<Rightarrow> ProjectBalance list" where
  "balancesOf cal s project = filter (\<lambda>b. pb_project b = project) (calculateProjectBalances cal s)"

subsection \<open>Example runs\<close>

text \<open>A host in UTC, started on Thursday 2026-02-12 with nothing in storage; two projects.\<close>

definition ex_now :: int where
  "ex_now = 1770895200123"

definition ex_empty :: AppData where
  "ex_empty = \<lparr> projects = [], weeks = [], templates = [], weeklyHourGoal = 40 \<rparr>"

definition ex_start :: state where
  "ex_start = initState utc ex_now ex_empty (initial_state utc ex_now)"

definition ex_projects :: state where
  "ex_projects = snd (addProject ''B'' 5 Low (snd (addProject ''A'' 10 High ex_start)))"

text \<open>Monday 2026-02-09, the current week of the examples.\<close>

definition ex_monday :: int where
  "ex_monday = 1770595200000"

definition ex_projectA :: Project where
  "ex_projectA = \<lparr> p_id = 0, p_name = ''A'', p_weeklyHourTarget = 10, p_priority = High,
                   p_colorIndex = 0 \<rparr>"

definition ex_projectB :: Project where
  "ex_projectB = \<lparr> p_id = 1, p_name = ''B'', p_weeklyHourTarget = 5, p_priority = Low,
                   p_colorIndex = 1 \<rparr>"

text \<open>The week holds one block, of project B, on Monday in slot 5.\<close>

definition ex_booked :: state where
  "ex_booked =
     \<lparr> appData =
         \<lparr> projects = [ex_projectA, ex_projectB],
           weeks = [\<lparr> w_weekKey = ''2026-W07'', w_startDate = ''2026-02-09'',
                     w_blocks = [\<lparr> b_id = 2, b_projectId = 1, b_day = Monday, b_slotIndex = 5 \<rparr>] \<rparr>],
           templates = [],
           weeklyHourGoal = 40 \<rparr>,
       currentMonday = ex_monday,
       nextId = 3 \<rparr>"

text \<open>A stored template with three entries; the project of the second one, with
  identifier 5, has been deleted since.\<close>

definition ex_template :: Template where
  "ex_template =
     \<lparr> t_id = 7, t_name = ''usual'',
       t_blocks = [\<lparr> tb_projectId = 0, tb_day = Monday, tb_slotIndex = 0 \<rparr>,
                   \<lparr> tb_projectId = 5, tb_day = Monday, tb_slotIndex = 1 \<rparr>,
                   \<lparr> tb_projectId = 1, tb_day = Tuesday, tb_slotIndex = 3 \<rparr>] \<rparr>"

definition ex_templated :: state where
  "ex_templated =
     \<lparr> appData =
         \<lparr> projects = [ex_projectA, ex_projectB],
           weeks = [\<lparr> w_weekKey = ''2026-W07'', w_startDate = ''2026-02-09'',
                     w_blocks = [\<lparr> b_id = 2, b_projectId = 1, b_day = Monday, b_slotIndex = 5 \<rparr>] \<rparr>],
           templates = [ex_template],
           weeklyHourGoal = 40 \<rparr>,
       currentMonday = ex_monday,
       nextId = 8 \<rparr>"

text \<open>Three stored weeks, the current one first: in it project A has ten blocks (5 hours);
  the week before holds twelve blocks of A (6 hours) and one of B; the week before that
  is empty.\<close>

definition ex_history :: state where
  "ex_history =
     \<lparr> appData =
         \<lparr> projects = [ex_projectB, ex_projectA],
           weeks = [\<lparr> w_weekKey = ''2026-W07'', w_startDate = ''2026-02-09'',
                     w_blocks = freshBlocks 20 0 Tuesday [0, 1, 2, 3, 4, 5, 6, 7, 8, 9] \<rparr>,
                    \<lparr> w_weekKey = ''2026-W05'', w_startDate = ''2026-01-26'', w_blocks = [] \<rparr>,
                    \<lparr> w_weekKey = ''2026-W06'', w_startDate = ''2026-02-02'',
                     w_blocks = \<lparr> b_id = 2, b_projectId = 1, b_day = Friday, b_slotIndex = 0 \<rparr>
                       # freshBlocks 3 0 Monday [0, 1, 2, 3, 4, 5, 6, 7, 8, 9, 10, 11] \<rparr>],
           templates = [],
           weeklyHourGoal = 40 \<rparr>,
       currentMonday = ex_monday,
       nextId = 30 \<rparr>"

text \<open>One project with a target of 20 hours and 23 blocks (11.5 hours) in the current
  week, the only week.\<close>

definition ex_projectC :: Project where
  "ex_projectC = \<lparr> p_id = 0, p_name = ''C'', p_weeklyHourTarget = 20, p_priority = Medium,
                   p_colorIndex = 0 \<rparr>"

definition ex_halves :: state where
  "ex_halves =
     \<lparr> appData =
         \<lparr> projects = [ex_projectC],
           weeks = [\<lparr> w_weekKey = ''2026-W07'', w_startDate = ''2026-02-09'',
                     w_blocks = freshBlocks 1 0 Monday
                       [0, 1, 2, 3, 4, 5, 6, 7, 8, 9, 10, 11, 12, 13, 14, 15, 16, 17, 18, 19,
                        20, 21, 22] \<rparr>],
           templates = [],
           weeklyHourGoal = 40 \<rparr>,
       currentMonday = ex_monday,
       nextId = 24 \<rparr>"

text \<open>Three earlier weeks in which another project has a block, for a project with a
  target of 2.4 hours.\<close>

definition ex_projectD :: Project where
  "ex_projectD = \<lparr> p_id = 7, p_name = ''D'', p_weeklyHourTarget = toDouble (12 / 5),
                   p_priority = Low, p_colorIndex = 2 \<rparr>"

definition ex_three_weeks :: "WeekData list" where
  "ex_three_weeks =
     [\<lparr> w_weekKey = ''2026-W04'', w_startDate = ''2026-01-19'',
        w_blocks = [\<lparr> b_id = 1, b_projectId = 0, b_day = Monday, b_slotIndex = 0 \<rparr>] \<rparr>,
      \<lparr> w_weekKey = ''2026-W05'', w_startDate = ''2026-01-26'',
        w_blocks = [\<lparr> b_id = 2, b_projectId = 0, b_day = Monday, b_slotIndex = 0 \<rparr>] \<rparr>,
      \<lparr> w_weekKey = ''2026-W06'', w_startDate = ''2026-02-02'',
        w_blocks = [\<lparr> b_id = 3, b_projectId = 0, b_day = Monday, b_slotIndex = 0 \<rparr>] \<rparr>]"

text \<open>Monday 2026-01-05, in the same year as \<open>ex_monday\<close>.\<close>

definition ex_monday_jan :: int where
  "ex_monday_jan = 1767571200000"

section \<open>Verification\<close>

subsection \<open>Lookup and write-back of the current week\<close>

lemma findIndex_None: "findIndex P xs = None \<longleftrightarrow> (\<forall>x \<in> set xs. \<not> P x)"
  by (induction xs) auto

lemma find_None_findIndex: "find P xs = None \<longleftrightarrow> findIndex P xs = None"
  by (auto simp: find_None_iff findIndex_None)

lemma findIndex_Some:
  "findIndex P xs = Some i \<Longrightarrow> i < length xs \<and> P (xs ! i) \<and> find P xs = Some (xs ! i)"
proof (induction xs arbitrary: i)
  case Nil
  then show ?case by simp
next
  case (Cons x xs)
  then show ?case by (auto split: if_splits)
qed

lemma find_update_first:
  "findIndex P xs = Some i \<Longrightarrow> P y \<Longrightarrow> find P (xs[i := y]) = Some y"
proof (induction xs arbitrary: i)
  case Nil
  then show ?case by simp
next
  case (Cons x xs)
  then show ?case by (auto split: if_splits)
qed

lemma find_append_new:
  "findIndex P xs = None \<Longrightarrow> P y \<Longrightarrow> find P (xs @ [y]) = Some y"
  by (induction xs) (auto split: if_splits)

lemma currentMonday_updateWeekInState [simp]:
  "currentMonday (updateWeekInState week s) = currentMonday s"
  by (simp add: updateWeekInState_def split: option.splits)

lemma nextId_updateWeekInState [simp]:
  "nextId (updateWeekInState week s) = nextId s"
  by (simp add: updateWeekInState_def split: option.splits)

lemma projects_updateWeekInState [simp]:
  "projects (appData (updateWeekInState week s)) = projects (appData s)"
  by (simp add: updateWeekInState_def split: option.splits)

lemma templates_updateWeekInState [simp]:
  "templates (appData (updateWeekInState week s)) = templates (appData s)"
  by (simp add: updateWeekInState_def split: option.splits)

lemma weekKey_getCurrentWeekData [simp]:
  "w_weekKey (getCurrentWeekData cal s) = getWeekKey cal (currentMonday s)"
  by (auto simp: getCurrentWeekData_def Let_def split: option.splits dest: find_Some_iff[THEN iffD1])

lemma getCurrentWeekData_cases:
  "getCurrentWeekData cal s \<in> set (weeks (appData s)) \<or> w_blocks (getCurrentWeekData cal s) = []"
  by (auto simp: getCurrentWeekData_def Let_def find_Some_iff split: option.splits)

lemma getCurrentWeekData_updateWeekInState:
  "w_weekKey week = getWeekKey cal (currentMonday s) \<Longrightarrow>
   getCurrentWeekData cal (updateWeekInState week s) = week"
  by (auto simp: getCurrentWeekData_def updateWeekInState_def Let_def find_update_first
      find_append_new split: option.splits)

lemma set_weeks_updateWeekInState:
  "set (weeks (appData (updateWeekInState week s))) \<subseteq> insert week (set (weeks (appData s)))"
  by (auto simp: updateWeekInState_def split: option.splits dest: set_update_subset_insert[THEN subsetD])

lemma generateId_simps [simp]:
  "fst (generateId s) = nextId s"
  "snd (generateId s) = s\<lparr>nextId := Suc (nextId s)\<rparr>"
  by (simp_all add: generateId_def)

subsection \<open>The loop of addTimeBlocks\<close>

lemma inRange_step:
  "slot \<le> mx \<Longrightarrow>
   ((b_day x = d \<longrightarrow> b_slotIndex x \<noteq> slot) \<and> \<not> inRange d (slot + 1) mx x) =
   (\<not> inRange d slot mx x)"
  by (auto simp: inRange_def)

lemma addTimeBlocks_loop_eq:
  "addTimeBlocks_loop p d slot mx week nb s =
     (week\<lparr>w_blocks := filter (\<lambda>b. \<not> inRange d slot mx b) (w_blocks week)
                          @ freshBlocks (nextId s) p d [slot..mx]\<rparr>,
      nb @ freshBlocks (nextId s) p d [slot..mx],
      s\<lparr>nextId := nextId s + length [slot..mx]\<rparr>)"
proof (induction "nat (mx + 1 - slot)" arbitrary: slot week nb s)
  case 0
  then have gt: "\<not> slot \<le> mx" by simp
  then have "filter (\<lambda>b. \<not> inRange d slot mx b) (w_blocks week) = w_blocks week"
    by (auto simp: inRange_def intro: filter_True)
  with gt show ?case
    by (subst addTimeBlocks_loop.simps) simp
next
  case (Suc n)
  then have le: "slot \<le> mx" and n: "n = nat (mx + 1 - (slot + 1))" by simp_all
  have up: "[slot..mx] = slot # [slot + 1..mx]"
    using le by (simp add: upto_rec1)
  have notin: "\<not> inRange d (slot + 1) mx \<lparr> b_id = k, b_projectId = p, b_day = d, b_slotIndex = slot \<rparr>" for k
    by (simp add: inRange_def)
  show ?case
    apply (subst addTimeBlocks_loop.simps)
    apply (simp add: le Let_def generateId_def Suc.hyps(1)[OF n] up notin
        inRange_step[OF le])
    done
qed

lemma length_freshBlocks [simp]: "length (freshBlocks n p d is) = length is"
  by (induction "is" arbitrary: n) auto

lemma slots_freshBlocks [simp]: "map b_slotIndex (freshBlocks n p d is) = is"
  by (induction "is" arbitrary: n) auto

lemma ids_freshBlocks: "map b_id (freshBlocks n p d is) = [n..<n + length is]"
  by (induction "is" arbitrary: n) (auto simp: upt_rec)

lemma set_freshBlocks:
  "b \<in> set (freshBlocks n p d is) \<Longrightarrow> b_projectId b = p \<and> b_day b = d \<and> b_slotIndex b \<in> set is"
  by (induction "is" arbitrary: n) auto

lemma slotOf_freshBlocks: "map slotOf (freshBlocks n p d is) = map (Pair d) is"
  by (induction "is" arbitrary: n) (auto simp: slotOf_def)

lemma addTimeBlocks_result:
  "addTimeBlocks cal p d a b s =
     (freshBlocks (nextId s) p d [min a b..max a b],
      updateWeekInState
        ((getCurrentWeekData cal s)
           \<lparr>w_blocks := filter (\<lambda>blk. \<not> inRange d (min a b) (max a b) blk)
                          (w_blocks (getCurrentWeekData cal s))
                        @ freshBlocks (nextId s) p d [min a b..max a b]\<rparr>)
        (s\<lparr>nextId := nextId s + length [min a b..max a b]\<rparr>))"
proof -
  have "0 < length (freshBlocks (nextId s) p d [min a b..max a b])"
    by simp
  then have "freshBlocks (nextId s) p d [min a b..max a b] \<noteq> []"
    by (metis length_greater_0_conv)
  then show ?thesis
    unfolding addTimeBlocks_def Let_def addTimeBlocks_loop_eq
    by (simp del: length_upto)
qed

lemma currentWeek_addTimeBlocks:
  "w_blocks (getCurrentWeekData cal (snd (addTimeBlocks cal p d a b s))) =
     filter (\<lambda>blk. \<not> inRange d (min a b) (max a b) blk) (w_blocks (getCurrentWeekData cal s))
       @ freshBlocks (nextId s) p d [min a b..max a b]"
  by (simp add: addTimeBlocks_result getCurrentWeekData_updateWeekInState)

subsection \<open>The example runs\<close>

lemma ex_monday_key: "getWeekKey utc ex_monday = ''2026-W07''"
  unfolding ex_monday_def by code_simp

lemma ex_getMonday: "getMonday utc ex_now = ex_monday"
  unfolding ex_monday_def by code_simp

lemma ex_monday_date: "toDateString utc ex_monday = ''2026-02-09''"
  unfolding ex_monday_def by code_simp

lemma ex_booked_week:
  "w_blocks (getCurrentWeekData utc ex_booked) =
     [\<lparr> b_id = 2, b_projectId = 1, b_day = Monday, b_slotIndex = 5 \<rparr>]"
  by (simp add: getCurrentWeekData_def ex_booked_def ex_monday_key)

lemma ex_start_eq:
  "ex_start =
     \<lparr> appData = \<lparr> projects = [],
                   weeks = [\<lparr> w_weekKey = ''2026-W07'', w_startDate = ''2026-02-09'', w_blocks = [] \<rparr>],
                   templates = [], weeklyHourGoal = 40 \<rparr>,
       currentMonday = ex_monday, nextId = 0 \<rparr>"
  by (simp add: ex_start_def initState_def initial_state_def ensureCurrentWeek_def ex_empty_def
      ex_getMonday ex_monday_key ex_monday_date)

lemma nextColorIndex_0_Nil: "nextColorIndex [] 0 = 0"
  by (simp add: nextColorIndex.simps)

lemma nextColorIndex_0_one: "nextColorIndex [0] 0 = 1"
  by (simp add: nextColorIndex.simps PROJECT_PALETTE_length_def)

lemma ex_projects_eq:
  "ex_projects =
     \<lparr> appData = \<lparr> projects = [ex_projectA, ex_projectB],
                   weeks = [\<lparr> w_weekKey = ''2026-W07'', w_startDate = ''2026-02-09'', w_blocks = [] \<rparr>],
                   templates = [], weeklyHourGoal = 40 \<rparr>,
       currentMonday = ex_monday, nextId = 2 \<rparr>"
  by (simp add: ex_projects_def ex_start_eq addProject_def generateId_def Let_def
      nextColorIndex_0_Nil nextColorIndex_0_one PROJECT_PALETTE_length_def
      ex_projectA_def ex_projectB_def)

lemma ex_booked_run:
  "ex_booked = snd (addTimeBlock utc 1 Monday 5 ex_projects)"
  by (simp add: ex_projects_eq ex_booked_def addTimeBlock_def getCurrentWeekData_def
      updateWeekInState_def ex_monday_key generateId_def Let_def)

lemma ex_booked_reachable: "reachable utc ex_booked"
  unfolding ex_booked_run ex_projects_def ex_start_def
  by (intro reachable.intros) (simp add: storedDataOk_def ex_empty_def)

subsection \<open>addTimeBlocks\<close>

lemma projectIds_freshBlocks: "map b_projectId (freshBlocks n p d is) = replicate (length is) p"
  by (induction "is" arbitrary: n) auto

lemma days_freshBlocks: "map b_day (freshBlocks n p d is) = replicate (length is) d"
  by (induction "is" arbitrary: n) auto

lemma inRange_freshBlocks:
  "\<forall>i \<in> set is. lo \<le> i \<and> i \<le> hi \<Longrightarrow>
   filter (inRange d lo hi) (freshBlocks n p d is) = freshBlocks n p d is"
  by (induction "is" arbitrary: n) (auto simp: inRange_def)

lemma not_inRange_freshBlocks:
  "\<forall>i \<in> set is. lo \<le> i \<and> i \<le> hi \<Longrightarrow>
   filter (\<lambda>b. \<not> inRange d lo hi b) (freshBlocks n p d is) = []"
  by (induction "is" arbitrary: n) (auto simp: inRange_def)

text \<open>
  C10. The list returned by \<^verbatim>\<open>addTimeBlocks\<close> has
  \<open>max startSlot endSlot - min startSlot endSlot + 1\<close> elements, every one with the given
  project and day, and their slot indices are the integers from the smaller to the larger
  bound in increasing order. (Slot bounds are integers.)
\<close>

theorem addTimeBlocks_returns_range:
  "length (fst (addTimeBlocks cal projectId day startSlot endSlot s)) =
     nat (max startSlot endSlot - min startSlot endSlot + 1) \<and>
   map b_projectId (fst (addTimeBlocks cal projectId day startSlot endSlot s)) =
     replicate (nat (max startSlot endSlot - min startSlot endSlot + 1)) projectId \<and>
   map b_day (fst (addTimeBlocks cal projectId day startSlot endSlot s)) =
     replicate (nat (max startSlot endSlot - min startSlot endSlot + 1)) day \<and>
   map b_slotIndex (fst (addTimeBlocks cal projectId day startSlot endSlot s)) =
     [min startSlot endSlot..max startSlot endSlot]"
  by (simp add: addTimeBlocks_result projectIds_freshBlocks days_freshBlocks)

theorem addTimeBlocks_returns_range_example:
  "length (fst (addTimeBlocks utc 0 Tuesday 5 2 ex_booked)) = 4 \<and>
   map b_projectId (fst (addTimeBlocks utc 0 Tuesday 5 2 ex_booked)) = [0, 0, 0, 0] \<and>
   map b_day (fst (addTimeBlocks utc 0 Tuesday 5 2 ex_booked)) = [Tuesday, Tuesday, Tuesday, Tuesday] \<and>
   map b_slotIndex (fst (addTimeBlocks utc 0 Tuesday 5 2 ex_booked)) = [2, 3, 4, 5]"
  using addTimeBlocks_returns_range [of utc 0 Tuesday 5 2 ex_booked]
  by (simp add: upto.simps numeral_eq_Suc)

text \<open>
  C1, as the code has it. After \<^verbatim>\<open>addTimeBlocks\<close> with bounds \<open>a\<close> and \<open>b\<close> the current week
  holds, on that day and within the slots from \<open>min a b\<close> to \<open>max a b\<close>, exactly
  \<open>|b - a| + 1\<close> blocks, one for each slot of the range, all of the new project, whatever
  occupied the day before. The blocks outside the range, on that day or another, are the
  ones that were there before the call.
\<close>

theorem addTimeBlocks_overwrites_range:
  "length (filter (inRange day (min a b) (max a b))
       (w_blocks (getCurrentWeekData cal (snd (addTimeBlocks cal projectId day a b s))))) =
     nat \<bar>b - a\<bar> + 1 \<and>
   map b_projectId (filter (inRange day (min a b) (max a b))
       (w_blocks (getCurrentWeekData cal (snd (addTimeBlocks cal projectId day a b s))))) =
     replicate (nat \<bar>b - a\<bar> + 1) projectId \<and>
   map b_slotIndex (filter (inRange day (min a b) (max a b))
       (w_blocks (getCurrentWeekData cal (snd (addTimeBlocks cal projectId day a b s))))) =
     [min a b..max a b] \<and>
   filter (\<lambda>blk. \<not> inRange day (min a b) (max a b) blk)
       (w_blocks (getCurrentWeekData cal (snd (addTimeBlocks cal projectId day a b s)))) =
     filter (\<lambda>blk. \<not> inRange day (min a b) (max a b) blk) (w_blocks (getCurrentWeekData cal s))"
proof -
  let ?lo = "min a b" and ?hi = "max a b"
  let ?old = "w_blocks (getCurrentWeekData cal s)"
  let ?new = "freshBlocks (nextId s) projectId day [?lo..?hi]"
  have week: "w_blocks (getCurrentWeekData cal (snd (addTimeBlocks cal projectId day a b s))) =
      filter (\<lambda>blk. \<not> inRange day ?lo ?hi blk) ?old @ ?new"
    by (rule currentWeek_addTimeBlocks)
  have bounds: "\<forall>i \<in> set [?lo..?hi]. ?lo \<le> i \<and> i \<le> ?hi"
    by simp
  have inside: "filter (inRange day ?lo ?hi) (filter (\<lambda>blk. \<not> inRange day ?lo ?hi blk) ?old @ ?new) = ?new"
    using inRange_freshBlocks[OF bounds] by simp
  have outside: "filter (\<lambda>blk. \<not> inRange day ?lo ?hi blk)
      (filter (\<lambda>blk. \<not> inRange day ?lo ?hi blk) ?old @ ?new) =
      filter (\<lambda>blk. \<not> inRange day ?lo ?hi blk) ?old"
    using not_inRange_freshBlocks[OF bounds] by simp
  have count: "nat (?hi - ?lo + 1) = nat \<bar>b - a\<bar> + 1"
    by (cases "a \<le> b") (auto simp: min_def max_def nat_add_distrib)
  show ?thesis
    unfolding week inside outside
    using count by (simp add: projectIds_freshBlocks)
qed

theorem addTimeBlocks_overwrites_range_example:
  "length (filter (inRange Monday 0 1)
       (w_blocks (getCurrentWeekData utc (snd (addTimeBlocks utc 0 Monday 0 1 ex_booked))))) = 2 \<and>
   filter (\<lambda>blk. \<not> inRange Monday 0 1 blk)
       (w_blocks (getCurrentWeekData utc (snd (addTimeBlocks utc 0 Monday 0 1 ex_booked)))) =
     [\<lparr> b_id = 2, b_projectId = 1, b_day = Monday, b_slotIndex = 5 \<rparr>]"
  using addTimeBlocks_overwrites_range [of Monday 0 1 utc 0 ex_booked]
  by (simp add: ex_booked_week inRange_def)

text \<open>
  C1 as it is stated fails: with a block of project B on Monday in slot 5, adding the
  range 0 to 1 for project A leaves three blocks on Monday, the first of them of
  project B.
\<close>

theorem addTimeBlocks_day_count_counterexample:
  "length (blocksOfDay Monday
       (w_blocks (getCurrentWeekData utc (snd (addTimeBlocks utc 0 Monday 0 1 ex_booked))))) \<noteq>
     nat \<bar>1 - 0\<bar> + 1 \<and>
   map b_projectId (blocksOfDay Monday
       (w_blocks (getCurrentWeekData utc (snd (addTimeBlocks utc 0 Monday 0 1 ex_booked))))) =
     [1, 0, 0]"
  by (simp add: currentWeek_addTimeBlocks ex_booked_week blocksOfDay_def inRange_def
      upto.simps)

subsection \<open>addTimeBlock\<close>

lemma blocksAt_find:
  "(find (\<lambda>b. b_day b = d \<and> b_slotIndex b = i) bs = None) = (blocksAt d i bs = [])"
  by (auto simp: blocksAt_def find_None_iff filter_empty_conv)

lemma addTimeBlock_occupied:
  "blocksAt d i (w_blocks (getCurrentWeekData cal s)) \<noteq> [] \<Longrightarrow>
   addTimeBlock cal p d i s = (None, s)"
  by (auto simp: addTimeBlock_def Let_def blocksAt_find[symmetric] split: option.splits)

lemma addTimeBlock_free:
  "blocksAt d i (w_blocks (getCurrentWeekData cal s)) = [] \<Longrightarrow>
   addTimeBlock cal p d i s =
     (Some \<lparr> b_id = nextId s, b_projectId = p, b_day = d, b_slotIndex = i \<rparr>,
      updateWeekInState
        ((getCurrentWeekData cal s)\<lparr>w_blocks := w_blocks (getCurrentWeekData cal s) @
            [\<lparr> b_id = nextId s, b_projectId = p, b_day = d, b_slotIndex = i \<rparr>]\<rparr>)
        (s\<lparr>nextId := Suc (nextId s)\<rparr>))"
proof -
  assume "blocksAt d i (w_blocks (getCurrentWeekData cal s)) = []"
  then have "find (\<lambda>b. b_day b = d \<and> b_slotIndex b = i) (w_blocks (getCurrentWeekData cal s)) = None"
    by (simp add: blocksAt_find)
  then show ?thesis
    by (simp add: addTimeBlock_def Let_def generateId_def)
qed

lemma getCurrentWeekData_nextId [simp]:
  "getCurrentWeekData cal (s\<lparr>nextId := n\<rparr>) = getCurrentWeekData cal s"
  by (simp add: getCurrentWeekData_def Let_def split: option.splits)

text \<open>
  C8. \<^verbatim>\<open>addTimeBlock\<close> returns null exactly when a block already occupies the slot in the
  current week, and then the state is the one before the call. Otherwise it returns a
  block of the given project at that slot, whose identity is the one \<^verbatim>\<open>generateId\<close> has
  just produced (no block of a store whose identifiers came from \<^verbatim>\<open>generateId\<close> has it);
  the current week's collection is the old one with that one block added at the end. So
  the collection is unchanged exactly when the slot was occupied.
\<close>

theorem addTimeBlock_occupancy:
  "(fst (addTimeBlock cal projectId day slotIndex s) = None \<longleftrightarrow>
      blocksAt day slotIndex (w_blocks (getCurrentWeekData cal s)) \<noteq> []) \<and>
   (w_blocks (getCurrentWeekData cal (snd (addTimeBlock cal projectId day slotIndex s))) =
      w_blocks (getCurrentWeekData cal s) \<longleftrightarrow>
      blocksAt day slotIndex (w_blocks (getCurrentWeekData cal s)) \<noteq> []) \<and>
   (blocksAt day slotIndex (w_blocks (getCurrentWeekData cal s)) \<noteq> [] \<longrightarrow>
      snd (addTimeBlock cal projectId day slotIndex s) = s) \<and>
   (blocksAt day slotIndex (w_blocks (getCurrentWeekData cal s)) = [] \<longrightarrow>
      fst (addTimeBlock cal projectId day slotIndex s) =
        Some \<lparr> b_id = nextId s, b_projectId = projectId, b_day = day, b_slotIndex = slotIndex \<rparr> \<and>
      w_blocks (getCurrentWeekData cal (snd (addTimeBlock cal projectId day slotIndex s))) =
        w_blocks (getCurrentWeekData cal s) @
          [\<lparr> b_id = nextId s, b_projectId = projectId, b_day = day, b_slotIndex = slotIndex \<rparr>] \<and>
      blocksAt day slotIndex
          (w_blocks (getCurrentWeekData cal (snd (addTimeBlock cal projectId day slotIndex s)))) =
        [\<lparr> b_id = nextId s, b_projectId = projectId, b_day = day, b_slotIndex = slotIndex \<rparr>] \<and>
      (blockIdsBelow s \<longrightarrow>
         (\<forall>w \<in> set (weeks (appData s)). \<forall>b \<in> set (w_blocks w). b_id b \<noteq> nextId s) \<and>
         blockIdsBelow (snd (addTimeBlock cal projectId day slotIndex s))))"
proof (cases "blocksAt day slotIndex (w_blocks (getCurrentWeekData cal s)) = []")
  case False
  then show ?thesis
    by (simp add: addTimeBlock_occupied)
next
  case True
  let ?blk = "\<lparr> b_id = nextId s, b_projectId = projectId, b_day = day, b_slotIndex = slotIndex \<rparr>"
  let ?week = "(getCurrentWeekData cal s)\<lparr>w_blocks := w_blocks (getCurrentWeekData cal s) @ [?blk]\<rparr>"
  have res: "addTimeBlock cal projectId day slotIndex s =
      (Some ?blk, updateWeekInState ?week (s\<lparr>nextId := Suc (nextId s)\<rparr>))"
    using True by (rule addTimeBlock_free)
  have cur: "getCurrentWeekData cal (updateWeekInState ?week (s\<lparr>nextId := Suc (nextId s)\<rparr>)) = ?week"
    by (rule getCurrentWeekData_updateWeekInState) simp
  have at: "blocksAt day slotIndex (w_blocks (getCurrentWeekData cal s) @ [?blk]) = [?blk]"
    using True by (simp add: blocksAt_def)
  have below: "blockIdsBelow (updateWeekInState ?week (s\<lparr>nextId := Suc (nextId s)\<rparr>))"
    if ok: "blockIdsBelow s"
  proof -
    have old: "\<forall>b \<in> set (w_blocks (getCurrentWeekData cal s)). b_id b < nextId s"
      using ok getCurrentWeekData_cases[of cal s] by (auto simp: blockIdsBelow_def)
    have "\<forall>b \<in> set (w_blocks w). b_id b < Suc (nextId s)"
      if "w \<in> set (weeks (appData (updateWeekInState ?week (s\<lparr>nextId := Suc (nextId s)\<rparr>))))" for w
    proof -
      from that set_weeks_updateWeekInState[of ?week "s\<lparr>nextId := Suc (nextId s)\<rparr>"]
      have "w = ?week \<or> w \<in> set (weeks (appData s))" by auto
      then show ?thesis
        using old ok by (auto simp: blockIdsBelow_def less_Suc_eq)
    qed
    then show ?thesis by (simp add: blockIdsBelow_def)
  qed
  have fresh: "\<forall>w \<in> set (weeks (appData s)). \<forall>b \<in> set (w_blocks w). b_id b \<noteq> nextId s"
    if "blockIdsBelow s"
    using that by (fastforce simp: blockIdsBelow_def)
  show ?thesis
    using True below fresh by (simp add: res cur at)
qed

lemma ex_booked_nextId: "nextId ex_booked = 3"
  by (simp add: ex_booked_def)

theorem addTimeBlock_occupancy_example:
  "fst (addTimeBlock utc 0 Monday 5 ex_booked) = None \<and>
   snd (addTimeBlock utc 0 Monday 5 ex_booked) = ex_booked \<and>
   fst (addTimeBlock utc 0 Monday 6 ex_booked) =
     Some \<lparr> b_id = 3, b_projectId = 0, b_day = Monday, b_slotIndex = 6 \<rparr> \<and>
   w_blocks (getCurrentWeekData utc (snd (addTimeBlock utc 0 Monday 6 ex_booked))) =
     [\<lparr> b_id = 2, b_projectId = 1, b_day = Monday, b_slotIndex = 5 \<rparr>,
      \<lparr> b_id = 3, b_projectId = 0, b_day = Monday, b_slotIndex = 6 \<rparr>]"
  using addTimeBlock_occupancy [of utc 0 Monday 5 ex_booked]
    addTimeBlock_occupancy [of utc 0 Monday 6 ex_booked]
  by (simp add: ex_booked_week ex_booked_nextId blocksAt_def)

subsection \<open>Slot uniqueness is an invariant\<close>

lemma slotsUnique_filter: "slotsUnique bs \<Longrightarrow> slotsUnique (filter P bs)"
  by (simp add: slotsUnique_def distinct_map_filter)

lemma slotsUnique_Nil [simp]: "slotsUnique []"
  by (simp add: slotsUnique_def)

lemma slotsUnique_current:
  "storedDataOk (appData s) \<Longrightarrow> slotsUnique (w_blocks (getCurrentWeekData cal s))"
  using getCurrentWeekData_cases[of cal s] by (auto simp: storedDataOk_def)

lemma storedDataOk_updateWeekInState:
  assumes "storedDataOk (appData s)" and "slotsUnique (w_blocks week)"
  shows "storedDataOk (appData (updateWeekInState week s))"
proof -
  have "slotsUnique (w_blocks w)" if "w \<in> set (weeks (appData (updateWeekInState week s)))" for w
  proof -
    from that set_weeks_updateWeekInState[of week s]
    have "w = week \<or> w \<in> set (weeks (appData s))" by auto
    then show ?thesis using assms by (auto simp: storedDataOk_def)
  qed
  then show ?thesis
    using assms(1) by (simp add: storedDataOk_def)
qed

lemma storedDataOk_nextId [simp]:
  "storedDataOk (appData (s\<lparr>nextId := n\<rparr>)) = storedDataOk (appData s)"
  by simp

lemma storedDataOk_ensureCurrentWeek:
  "storedDataOk (appData s) \<Longrightarrow> storedDataOk (appData (ensureCurrentWeek cal s))"
  by (auto simp: ensureCurrentWeek_def Let_def storedDataOk_def)

lemma storedDataOk_initial: "storedDataOk (appData (initial_state cal now))"
  by (simp add: initial_state_def storedDataOk_def)

lemma storedDataOk_initState:
  "storedDataOk loaded \<Longrightarrow> storedDataOk (appData (initState cal now loaded s))"
  by (auto simp: initState_def Let_def intro!: storedDataOk_ensureCurrentWeek)
     (auto simp: storedDataOk_def)

lemma storedDataOk_navigateWeek:
  "storedDataOk (appData s) \<Longrightarrow> storedDataOk (appData (navigateWeek cal direction s))"
  by (simp add: navigateWeek_def Let_def storedDataOk_ensureCurrentWeek)

lemma storedDataOk_goToToday:
  "storedDataOk (appData s) \<Longrightarrow> storedDataOk (appData (goToToday cal now s))"
  by (simp add: goToToday_def storedDataOk_ensureCurrentWeek)

lemma storedDataOk_setWeeklyHourGoal:
  "storedDataOk (appData s) \<Longrightarrow> storedDataOk (appData (setWeeklyHourGoal hours s))"
  by (simp add: setWeeklyHourGoal_def storedDataOk_def)

lemma storedDataOk_addProject:
  "storedDataOk (appData s) \<Longrightarrow> storedDataOk (appData (snd (addProject name target priority s)))"
  by (simp add: addProject_def Let_def generateId_def storedDataOk_def)

lemma storedDataOk_updateProject:
  "storedDataOk (appData s) \<Longrightarrow> storedDataOk (appData (updateProject ident updates s))"
  by (simp add: updateProject_def storedDataOk_def split: option.splits)

lemma storedDataOk_deleteProject:
  "storedDataOk (appData s) \<Longrightarrow> storedDataOk (appData (deleteProject ident s))"
  by (auto simp: deleteProject_def storedDataOk_def slotsUnique_filter)

lemma storedDataOk_deleteTemplate:
  "storedDataOk (appData s) \<Longrightarrow> storedDataOk (appData (deleteTemplate templateId s))"
  by (auto simp: deleteTemplate_def storedDataOk_def)

lemma slotsUnique_snoc:
  "slotsUnique bs \<Longrightarrow> blocksAt (b_day blk) (b_slotIndex blk) bs = [] \<Longrightarrow> slotsUnique (bs @ [blk])"
  by (auto simp: slotsUnique_def blocksAt_def slotOf_def filter_empty_conv)

lemma storedDataOk_addTimeBlock:
  assumes "storedDataOk (appData s)"
  shows "storedDataOk (appData (snd (addTimeBlock cal projectId day slotIndex s)))"
proof (cases "blocksAt day slotIndex (w_blocks (getCurrentWeekData cal s)) = []")
  case False
  then show ?thesis using assms by (simp add: addTimeBlock_occupied)
next
  case True
  let ?blk = "\<lparr> b_id = nextId s, b_projectId = projectId, b_day = day, b_slotIndex = slotIndex \<rparr>"
  have "slotsUnique (w_blocks (getCurrentWeekData cal s) @ [?blk])"
    using slotsUnique_current[OF assms, of cal] True by (intro slotsUnique_snoc) simp_all
  then show ?thesis
    using assms True by (simp add: addTimeBlock_free storedDataOk_updateWeekInState)
qed

lemma slotsUnique_overwrite:
  assumes "slotsUnique bs"
  shows "slotsUnique (filter (\<lambda>b. \<not> inRange d lo hi b) bs @ freshBlocks n p d [lo..hi])"
proof -
  have "distinct (map slotOf (filter (\<lambda>b. \<not> inRange d lo hi b) bs))"
    using assms by (simp add: slotsUnique_def distinct_map_filter)
  moreover have "distinct (map slotOf (freshBlocks n p d [lo..hi]))"
    by (simp add: slotOf_freshBlocks distinct_map inj_on_def)
  moreover have "set (map slotOf (filter (\<lambda>b. \<not> inRange d lo hi b) bs))
      \<inter> set (map slotOf (freshBlocks n p d [lo..hi])) = {}"
    by (auto simp: slotOf_freshBlocks slotOf_def inRange_def)
  ultimately show ?thesis
    by (simp add: slotsUnique_def)
qed

lemma storedDataOk_addTimeBlocks:
  assumes "storedDataOk (appData s)"
  shows "storedDataOk (appData (snd (addTimeBlocks cal projectId day startSlot endSlot s)))"
  using assms slotsUnique_current[OF assms, of cal]
  by (simp add: addTimeBlocks_result storedDataOk_updateWeekInState slotsUnique_overwrite
      del: length_upto)

lemma storedDataOk_removeTimeBlocksInRange:
  assumes "storedDataOk (appData s)"
  shows "storedDataOk (appData (removeTimeBlocksInRange cal day startSlot endSlot s))"
  using assms slotsUnique_current[OF assms, of cal]
  by (simp add: removeTimeBlocksInRange_def Let_def storedDataOk_updateWeekInState
      slotsUnique_filter)

lemma storedDataOk_removeTimeBlock:
  assumes "storedDataOk (appData s)"
  shows "storedDataOk (appData (removeTimeBlock cal blockId s))"
  using assms slotsUnique_current[OF assms, of cal]
  by (simp add: removeTimeBlock_def Let_def storedDataOk_updateWeekInState slotsUnique_filter)

lemma slotOf_reassign:
  "i < length bs \<Longrightarrow> map slotOf (bs[i := (bs ! i)\<lparr>b_projectId := q\<rparr>]) = map slotOf bs"
  by (simp add: map_update slotOf_def list_update_same_conv)

lemma storedDataOk_updateTimeBlockProject:
  assumes "storedDataOk (appData s)"
  shows "storedDataOk (appData (updateTimeBlockProject cal blockId newProjectId s))"
proof (cases "findIndex (\<lambda>b. b_id b = blockId) (w_blocks (getCurrentWeekData cal s))")
  case None
  then show ?thesis using assms by (simp add: updateTimeBlockProject_def)
next
  case (Some i)
  then have "i < length (w_blocks (getCurrentWeekData cal s))"
    by (simp add: findIndex_Some)
  then have "slotsUnique ((w_blocks (getCurrentWeekData cal s))
      [i := (w_blocks (getCurrentWeekData cal s) ! i)\<lparr>b_projectId := newProjectId\<rparr>])"
    using slotsUnique_current[OF assms, of cal] by (simp add: slotsUnique_def slotOf_reassign)
  then show ?thesis
    using assms Some by (simp add: updateTimeBlockProject_def Let_def storedDataOk_updateWeekInState)
qed

lemma templateSlotOf_stripId: "map templateSlotOf (map stripId bs) = map slotOf bs"
  by (simp add: templateSlotOf_def stripId_def slotOf_def)

lemma storedDataOk_saveCurrentWeekAsTemplate:
  assumes "storedDataOk (appData s)"
  shows "storedDataOk (appData (snd (saveCurrentWeekAsTemplate cal name s)))"
  using assms slotsUnique_current[OF assms, of cal]
  by (auto simp: saveCurrentWeekAsTemplate_def Let_def generateId_def storedDataOk_def
      templateSlotOf_stripId slotsUnique_def simp del: map_map)

subsection \<open>The loop of applyTemplate\<close>

lemma applyTemplate_loop_eq:
  "applyTemplate_loop ps tbs week s =
     (week\<lparr>w_blocks := w_blocks week @
        freshFromTemplate (nextId s) (filter (\<lambda>tb. find (\<lambda>p. p_id p = tb_projectId tb) ps \<noteq> None) tbs)\<rparr>,
      s\<lparr>nextId := nextId s +
        length (filter (\<lambda>tb. find (\<lambda>p. p_id p = tb_projectId tb) ps \<noteq> None) tbs)\<rparr>)"
  by (induction tbs arbitrary: week s) (simp_all add: generateId_def)

lemma length_freshFromTemplate [simp]: "length (freshFromTemplate n tbs) = length tbs"
  by (induction tbs arbitrary: n) auto

lemma stripId_freshFromTemplate [simp]: "map stripId (freshFromTemplate n tbs) = tbs"
  by (induction tbs arbitrary: n) (auto simp: stripId_def)

lemma ids_freshFromTemplate: "map b_id (freshFromTemplate n tbs) = [n..<n + length tbs]"
  by (induction tbs arbitrary: n) (auto simp: upt_rec)

lemma slotOf_freshFromTemplate: "map slotOf (freshFromTemplate n tbs) = map templateSlotOf tbs"
  by (induction tbs arbitrary: n) (auto simp: slotOf_def templateSlotOf_def)

lemma projectIds_freshFromTemplate:
  "map b_projectId (freshFromTemplate n tbs) = map tb_projectId tbs"
  by (induction tbs arbitrary: n) auto

lemma find_project_exists:
  "(\<exists>y. find (\<lambda>p. p_id p = ident) (projects (appData s)) = Some y) = projectExists s ident"
proof -
  have "(find (\<lambda>p. p_id p = ident) (projects (appData s)) \<noteq> None) = projectExists s ident"
    by (auto simp: projectExists_def find_None_iff)
  then show ?thesis by simp
qed

lemma applyTemplate_unknown:
  "find (\<lambda>t. t_id t = templateId) (templates (appData s)) = None \<Longrightarrow>
   applyTemplate cal templateId s = s"
  by (simp add: applyTemplate_def)

lemma applyTemplate_known:
  "find (\<lambda>t. t_id t = templateId) (templates (appData s)) = Some template \<Longrightarrow>
   applyTemplate cal templateId s =
     updateWeekInState
       ((getCurrentWeekData cal s)\<lparr>w_blocks :=
          freshFromTemplate (nextId s)
            (filter (\<lambda>tb. projectExists s (tb_projectId tb)) (t_blocks template))\<rparr>)
       (s\<lparr>nextId := nextId s +
          length (filter (\<lambda>tb. projectExists s (tb_projectId tb)) (t_blocks template))\<rparr>)"
  by (simp add: applyTemplate_def Let_def applyTemplate_loop_eq find_project_exists)

lemma storedDataOk_applyTemplate:
  assumes "storedDataOk (appData s)"
  shows "storedDataOk (appData (applyTemplate cal templateId s))"
proof (cases "find (\<lambda>t. t_id t = templateId) (templates (appData s))")
  case None
  then show ?thesis using assms by (simp add: applyTemplate_unknown)
next
  case (Some template)
  then have "template \<in> set (templates (appData s))"
    by (auto simp: find_Some_iff)
  then have "distinct (map templateSlotOf (t_blocks template))"
    using assms by (simp add: storedDataOk_def)
  then have "slotsUnique (freshFromTemplate (nextId s)
      (filter (\<lambda>tb. projectExists s (tb_projectId tb)) (t_blocks template)))"
    by (simp add: slotsUnique_def slotOf_freshFromTemplate distinct_map_filter)
  then show ?thesis
    using assms by (simp add: applyTemplate_known[OF Some] storedDataOk_updateWeekInState)
qed

lemma reachable_storedDataOk: "reachable cal s \<Longrightarrow> storedDataOk (appData s)"
proof (induction rule: reachable.induct)
  case (r_start now)
  show ?case by (rule storedDataOk_initial)
next
  case (r_initState s loaded now)
  then show ?case by (simp add: storedDataOk_initState)
next
  case (r_navigateWeek s direction)
  then show ?case by (simp add: storedDataOk_navigateWeek)
next
  case (r_goToToday s now)
  then show ?case by (simp add: storedDataOk_goToToday)
next
  case (r_setWeeklyHourGoal s hours)
  then show ?case by (simp add: storedDataOk_setWeeklyHourGoal)
next
  case (r_addProject s name target priority)
  then show ?case by (simp add: storedDataOk_addProject)
next
  case (r_updateProject s ident updates)
  then show ?case by (simp add: storedDataOk_updateProject)
next
  case (r_deleteProject s ident)
  then show ?case by (simp add: storedDataOk_deleteProject)
next
  case (r_addTimeBlock s projectId day slotIndex)
  then show ?case by (simp add: storedDataOk_addTimeBlock)
next
  case (r_addTimeBlocks s projectId day startSlot endSlot)
  then show ?case by (simp add: storedDataOk_addTimeBlocks)
next
  case (r_removeTimeBlocksInRange s day startSlot endSlot)
  then show ?case by (simp add: storedDataOk_removeTimeBlocksInRange)
next
  case (r_removeTimeBlock s blockId)
  then show ?case by (simp add: storedDataOk_removeTimeBlock)
next
  case (r_updateTimeBlockProject s blockId newProjectId)
  then show ?case by (simp add: storedDataOk_updateTimeBlockProject)
next
  case (r_saveCurrentWeekAsTemplate s name)
  then show ?case by (simp add: storedDataOk_saveCurrentWeekAsTemplate)
next
  case (r_applyTemplate s templateId)
  then show ?case by (simp add: storedDataOk_applyTemplate)
next
  case (r_deleteTemplate s templateId)
  then show ?case by (simp add: storedDataOk_deleteTemplate)
qed

lemma slotsUnique_blocksAt: "slotsUnique bs \<Longrightarrow> length (blocksAt d i bs) \<le> 1"
proof (induction bs)
  case Nil
  then show ?case by (simp add: blocksAt_def)
next
  case (Cons b bs)
  then have uniq: "slotsUnique bs" and new: "slotOf b \<notin> slotOf ` set bs"
    by (simp_all add: slotsUnique_def)
  show ?case
  proof (cases "b_day b = d \<and> b_slotIndex b = i")
    case True
    with new have "blocksAt d i bs = []"
      by (force simp: blocksAt_def filter_empty_conv slotOf_def image_iff)
    with True show ?thesis by (simp add: blocksAt_def)
  next
    case False
    with Cons.IH[OF uniq] show ?thesis by (auto simp: blocksAt_def)
  qed
qed

text \<open>
  C3. In every state of a run, every week of the store has at most one block for any
  pair of a day and a slot index, and so has the week that \<^verbatim>\<open>getCurrentWeekData\<close> returns;
  and the same holds again after \<^verbatim>\<open>addTimeBlock\<close>, \<^verbatim>\<open>addTimeBlocks\<close>, \<^verbatim>\<open>removeTimeBlock\<close>,
  \<^verbatim>\<open>removeTimeBlocksInRange\<close>, \<^verbatim>\<open>updateTimeBlockProject\<close>, \<^verbatim>\<open>deleteProject\<close> and
  \<^verbatim>\<open>applyTemplate\<close>, whatever their arguments. (The invariant that is carried through a
  run also says that the entries of every stored template are in distinct slots:
  \<^verbatim>\<open>applyTemplate\<close> relies on it.)
\<close>

theorem reachable_slots_unique:
  assumes "reachable cal s"
  shows "slotInvariant cal s \<and>
         slotInvariant cal (snd (addTimeBlock cal projectId day slotIndex s)) \<and>
         slotInvariant cal (snd (addTimeBlocks cal projectId day startSlot endSlot s)) \<and>
         slotInvariant cal (removeTimeBlock cal blockId s) \<and>
         slotInvariant cal (removeTimeBlocksInRange cal day startSlot endSlot s) \<and>
         slotInvariant cal (updateTimeBlockProject cal blockId newProjectId s) \<and>
         slotInvariant cal (deleteProject ident s) \<and>
         slotInvariant cal (applyTemplate cal templateId s)"
proof -
  have inv: "slotInvariant cal t" if "reachable cal t" for t
  proof -
    have ok: "storedDataOk (appData t)"
      using that by (rule reachable_storedDataOk)
    then have "\<forall>week \<in> set (weeks (appData t)). slotsUnique (w_blocks week)"
      by (simp add: storedDataOk_def)
    moreover have "slotsUnique (w_blocks (getCurrentWeekData cal t))"
      using ok by (rule slotsUnique_current)
    ultimately show ?thesis
      unfolding slotInvariant_def by (blast intro: slotsUnique_blocksAt)
  qed
  show ?thesis
    using assms by (intro conjI inv reachable.intros)
qed

lemma ex_booked_overwritten_week:
  "w_blocks (getCurrentWeekData utc (snd (addTimeBlocks utc 0 Monday 4 6 ex_booked))) =
     [\<lparr> b_id = 3, b_projectId = 0, b_day = Monday, b_slotIndex = 4 \<rparr>,
      \<lparr> b_id = 4, b_projectId = 0, b_day = Monday, b_slotIndex = 5 \<rparr>,
      \<lparr> b_id = 5, b_projectId = 0, b_day = Monday, b_slotIndex = 6 \<rparr>]"
  by (simp add: currentWeek_addTimeBlocks ex_booked_week ex_booked_nextId inRange_def upto.simps)

theorem reachable_slots_unique_example:
  "reachable utc ex_booked \<and>
   blocksAt Monday 5 (w_blocks (getCurrentWeekData utc ex_booked)) =
     [\<lparr> b_id = 2, b_projectId = 1, b_day = Monday, b_slotIndex = 5 \<rparr>] \<and>
   blocksAt Monday 5 (w_blocks (getCurrentWeekData utc (snd (addTimeBlocks utc 0 Monday 4 6 ex_booked))))
     = [\<lparr> b_id = 4, b_projectId = 0, b_day = Monday, b_slotIndex = 5 \<rparr>] \<and>
   length (blocksAt Monday 5
     (w_blocks (getCurrentWeekData utc (snd (addTimeBlocks utc 0 Monday 4 6 ex_booked))))) \<le> 1"
proof -
  have "slotInvariant utc (snd (addTimeBlocks utc 0 Monday 4 6 ex_booked))"
    using reachable_slots_unique [OF ex_booked_reachable] by blast
  then have "length (blocksAt Monday 5
      (w_blocks (getCurrentWeekData utc (snd (addTimeBlocks utc 0 Monday 4 6 ex_booked))))) \<le> 1"
    unfolding slotInvariant_def by blast
  then show ?thesis
    using ex_booked_reachable
    by (simp add: ex_booked_overwritten_week ex_booked_week blocksAt_def)
qed

subsection \<open>Templates\<close>

lemma currentWeek_applyTemplate:
  assumes "find (\<lambda>t. t_id t = templateId) (templates (appData s)) = Some template"
  shows "w_blocks (getCurrentWeekData cal (applyTemplate cal templateId s)) =
     freshFromTemplate (nextId s)
       (filter (\<lambda>tb. projectExists s (tb_projectId tb)) (t_blocks template))"
  by (simp add: applyTemplate_known[OF assms] getCurrentWeekData_updateWeekInState)

text \<open>
  C5. \<^verbatim>\<open>applyTemplate\<close> leaves the state as it is when no stored template has the given
  identifier. Otherwise, with the first stored template of that identifier, the current
  week's blocks afterwards are, in order and without their identities, exactly the
  template's entries whose project exists; the entries of a missing project are dropped,
  and nothing of the week's earlier blocks is kept. The identities are the ones
  \<^verbatim>\<open>generateId\<close> hands out during the call, one after the other.
\<close>

theorem applyTemplate_replaces_week:
  "((\<forall>t \<in> set (templates (appData s)). t_id t \<noteq> templateId) \<longrightarrow>
      applyTemplate cal templateId s = s) \<and>
   (\<forall>template. find (\<lambda>t. t_id t = templateId) (templates (appData s)) = Some template \<longrightarrow>
      map stripId (w_blocks (getCurrentWeekData cal (applyTemplate cal templateId s))) =
        filter (\<lambda>tb. projectExists s (tb_projectId tb)) (t_blocks template) \<and>
      map b_id (w_blocks (getCurrentWeekData cal (applyTemplate cal templateId s))) =
        [nextId s..<nextId s +
           length (filter (\<lambda>tb. projectExists s (tb_projectId tb)) (t_blocks template))])"
proof -
  have "applyTemplate cal templateId s = s"
    if "\<forall>t \<in> set (templates (appData s)). t_id t \<noteq> templateId"
  proof -
    from that have "find (\<lambda>t. t_id t = templateId) (templates (appData s)) = None"
      by (simp add: find_None_iff)
    then show ?thesis by (rule applyTemplate_unknown)
  qed
  then show ?thesis
    by (simp add: currentWeek_applyTemplate ids_freshFromTemplate)
qed

lemma ex_templated_key: "getWeekKey utc (currentMonday ex_templated) = ''2026-W07''"
  by (simp add: ex_templated_def ex_monday_key)

theorem applyTemplate_replaces_week_example:
  "applyTemplate utc 6 ex_templated = ex_templated \<and>
   map stripId (w_blocks (getCurrentWeekData utc (applyTemplate utc 7 ex_templated))) =
     [\<lparr> tb_projectId = 0, tb_day = Monday, tb_slotIndex = 0 \<rparr>,
      \<lparr> tb_projectId = 1, tb_day = Tuesday, tb_slotIndex = 3 \<rparr>] \<and>
   map b_id (w_blocks (getCurrentWeekData utc (applyTemplate utc 7 ex_templated))) = [8, 9]"
proof -
  have known: "find (\<lambda>t. t_id t = 7) (templates (appData ex_templated)) = Some ex_template"
    by (simp add: ex_templated_def ex_template_def)
  have unknown: "\<forall>t \<in> set (templates (appData ex_templated)). t_id t \<noteq> 6"
    by (simp add: ex_templated_def ex_template_def)
  have kept: "filter (\<lambda>tb. projectExists ex_templated (tb_projectId tb)) (t_blocks ex_template) =
      [\<lparr> tb_projectId = 0, tb_day = Monday, tb_slotIndex = 0 \<rparr>,
       \<lparr> tb_projectId = 1, tb_day = Tuesday, tb_slotIndex = 3 \<rparr>]"
    by (simp add: projectExists_def ex_templated_def ex_template_def ex_projectA_def ex_projectB_def)
  have n: "nextId ex_templated = 8"
    by (simp add: ex_templated_def)
  from applyTemplate_replaces_week [of ex_templated 6 utc]
    applyTemplate_replaces_week [of ex_templated 7 utc] known unknown
  show ?thesis
    by (simp add: kept n upt_rec)
qed


lemma getCurrentWeekData_saveCurrentWeekAsTemplate [simp]:
  "getCurrentWeekData cal (snd (saveCurrentWeekAsTemplate cal name s)) = getCurrentWeekData cal s"
  by (simp add: saveCurrentWeekAsTemplate_def getCurrentWeekData_def Let_def generateId_def
      split: option.splits)

lemma filter_same_length: "length (filter P xs) = length xs \<Longrightarrow> filter P xs = xs"
  by (metis filter_True length_filter_less less_irrefl)

lemma removeTimeBlocksInRange_result:
  "removeTimeBlocksInRange cal day a b s =
     (if filter (\<lambda>blk. \<not> inRange day (min a b) (max a b) blk) (w_blocks (getCurrentWeekData cal s))
           = w_blocks (getCurrentWeekData cal s)
      then s
      else updateWeekInState
             ((getCurrentWeekData cal s)\<lparr>w_blocks :=
                filter (\<lambda>blk. \<not> inRange day (min a b) (max a b) blk)
                  (w_blocks (getCurrentWeekData cal s))\<rparr>) s)"
proof -
  let ?old = "w_blocks (getCurrentWeekData cal s)"
  have pred: "(\<lambda>blk. \<not> (b_day blk = day \<and> min a b \<le> b_slotIndex blk \<and> b_slotIndex blk \<le> max a b)) =
      (\<lambda>blk. \<not> inRange day (min a b) (max a b) blk)"
    by (simp add: inRange_def)
  have "(length (filter (\<lambda>blk. \<not> inRange day (min a b) (max a b) blk) ?old) \<noteq> length ?old) =
      (filter (\<lambda>blk. \<not> inRange day (min a b) (max a b) blk) ?old \<noteq> ?old)"
    using filter_same_length[of "\<lambda>blk. \<not> inRange day (min a b) (max a b) blk" ?old] by auto
  then show ?thesis
    unfolding removeTimeBlocksInRange_def Let_def pred by simp
qed


lemma removeTimeBlocksInRange_keeps [simp]:
  "projects (appData (removeTimeBlocksInRange cal day a b s)) = projects (appData s)"
  "templates (appData (removeTimeBlocksInRange cal day a b s)) = templates (appData s)"
  "currentMonday (removeTimeBlocksInRange cal day a b s) = currentMonday s"
  by (simp_all add: removeTimeBlocksInRange_result)


subsection \<open>deleteProject\<close>

lemma not_projectExists_deleteProject: "\<not> projectExists (deleteProject ident s) ident"
  by (simp add: projectExists_def deleteProject_def)

lemma projectExists_deleteProject:
  "projectExists (deleteProject ident s) q = (projectExists s q \<and> q \<noteq> ident)"
  by (auto simp: projectExists_def deleteProject_def)

lemma weeks_deleteProject:
  "w \<in> set (weeks (appData (deleteProject ident s))) \<Longrightarrow> b \<in> set (w_blocks w) \<Longrightarrow>
   b_projectId b \<noteq> ident \<and> (\<exists>w0 \<in> set (weeks (appData s)). b \<in> set (w_blocks w0))"
  by (auto simp: deleteProject_def)

lemma applyTemplate_blocks:
  assumes "w \<in> set (weeks (appData (applyTemplate cal templateId s)))" and "b \<in> set (w_blocks w)"
  shows "projectExists s (b_projectId b) \<or> (\<exists>w0 \<in> set (weeks (appData s)). b \<in> set (w_blocks w0))"
proof (cases "find (\<lambda>t. t_id t = templateId) (templates (appData s))")
  case None
  then show ?thesis using assms by (auto simp: applyTemplate_unknown)
next
  case (Some template)
  let ?new = "freshFromTemplate (nextId s)
      (filter (\<lambda>tb. projectExists s (tb_projectId tb)) (t_blocks template))"
  let ?week = "(getCurrentWeekData cal s)\<lparr>w_blocks := ?new\<rparr>"
  let ?s1 = "s\<lparr>nextId := nextId s +
      length (filter (\<lambda>tb. projectExists s (tb_projectId tb)) (t_blocks template))\<rparr>"
  from assms(1) set_weeks_updateWeekInState[of ?week ?s1]
  have "w = ?week \<or> w \<in> set (weeks (appData s))"
    by (auto simp: applyTemplate_known[OF Some])
  then show ?thesis
  proof
    assume "w = ?week"
    with assms(2) have "b_projectId b \<in> set (map b_projectId ?new)"
      by auto
    then show ?thesis
      by (auto simp: projectIds_freshFromTemplate)
  next
    assume "w \<in> set (weeks (appData s))"
    with assms(2) show ?thesis by auto
  qed
qed

text \<open>
  C4. After \<^verbatim>\<open>deleteProject\<close> no project of the collection has the identifier, and no
  block of any week of the store, nor of the week \<^verbatim>\<open>getCurrentWeekData\<close> returns, refers to
  it. No orphan is left behind: if every block referred to an existing project before the
  call, every block does so after it. Nor does a stored template bring such a block back:
  after applying any template to the state, still no block refers to the identifier.
\<close>

theorem deleteProject_cascades:
  "(\<forall>p \<in> set (projects (appData (deleteProject ident s))). p_id p \<noteq> ident) \<and>
   (\<forall>w \<in> set (weeks (appData (deleteProject ident s))). \<forall>b \<in> set (w_blocks w).
      b_projectId b \<noteq> ident) \<and>
   (\<forall>b \<in> set (w_blocks (getCurrentWeekData cal (deleteProject ident s))). b_projectId b \<noteq> ident) \<and>
   (noOrphans s \<longrightarrow> noOrphans (deleteProject ident s)) \<and>
   (\<forall>templateId. \<forall>w \<in> set (weeks (appData (applyTemplate cal templateId (deleteProject ident s)))).
      \<forall>b \<in> set (w_blocks w). b_projectId b \<noteq> ident)"
proof -
  have gone: "\<forall>p \<in> set (projects (appData (deleteProject ident s))). p_id p \<noteq> ident"
    by (simp add: deleteProject_def)
  have weeks: "\<forall>w \<in> set (weeks (appData (deleteProject ident s))). \<forall>b \<in> set (w_blocks w).
      b_projectId b \<noteq> ident"
    using weeks_deleteProject by blast
  have current: "\<forall>b \<in> set (w_blocks (getCurrentWeekData cal (deleteProject ident s))).
      b_projectId b \<noteq> ident"
    using weeks getCurrentWeekData_cases[of cal "deleteProject ident s"] by auto
  have orphans: "noOrphans (deleteProject ident s)" if "noOrphans s"
    unfolding noOrphans_def
  proof (intro ballI)
    fix w b
    assume "w \<in> set (weeks (appData (deleteProject ident s)))" and "b \<in> set (w_blocks w)"
    then have "b_projectId b \<noteq> ident" and "\<exists>w0 \<in> set (weeks (appData s)). b \<in> set (w_blocks w0)"
      using weeks_deleteProject by blast+
    with that show "projectExists (deleteProject ident s) (b_projectId b)"
      by (auto simp: noOrphans_def projectExists_deleteProject)
  qed
  have later: "b_projectId b \<noteq> ident"
    if "w \<in> set (weeks (appData (applyTemplate cal templateId (deleteProject ident s))))"
      and "b \<in> set (w_blocks w)" for templateId w b
    using applyTemplate_blocks[OF that] weeks not_projectExists_deleteProject[of ident s]
    by auto
  show ?thesis
    using gone weeks current orphans later by blast
qed

theorem deleteProject_cascades_example:
  "noOrphans ex_booked \<and>
   projects (appData (deleteProject 1 ex_booked)) = [ex_projectA] \<and>
   concat (map w_blocks (weeks (appData (deleteProject 1 ex_booked)))) = [] \<and>
   noOrphans (deleteProject 1 ex_booked)"
proof -
  have before: "noOrphans ex_booked"
    by (simp add: noOrphans_def projectExists_def ex_booked_def ex_projectB_def)
  from deleteProject_cascades [of 1 ex_booked utc] before show ?thesis
    by (simp add: deleteProject_def ex_booked_def ex_projectA_def ex_projectB_def)
qed

subsection \<open>Rolling balances\<close>

lemma pow2_pos: "0 < pow2 e"
  by (simp add: pow2_def)

lemma roundTiesToEven_nonneg: "0 \<le> x \<Longrightarrow> 0 \<le> roundTiesToEven x"
  by (simp add: roundTiesToEven_def Let_def)

lemma toDouble_nonneg: "0 \<le> x \<Longrightarrow> 0 \<le> toDouble x"
proof (cases "x = 0")
  case True
  then show ?thesis by (simp add: toDouble_def)
next
  case False
  assume "0 \<le> x"
  then have "0 \<le> x / pow2 e" for e
    using pow2_pos[of e] by simp
  then have "0 \<le> roundTiesToEven (x / pow2 e)" for e
    by (rule roundTiesToEven_nonneg)
  then have "0 \<le> (of_int (roundTiesToEven (x / pow2 e)) :: rat) * pow2 e" for e
    using pow2_pos[of e] by simp
  then show ?thesis
    by (simp add: toDouble_def Let_def)
qed

lemma dmul_nonneg: "0 \<le> x \<Longrightarrow> 0 \<le> y \<Longrightarrow> 0 \<le> dmul x y"
  by (simp add: dmul_def toDouble_nonneg)

lemma ddiv_nonneg: "0 \<le> x \<Longrightarrow> 0 \<le> y \<Longrightarrow> 0 \<le> ddiv x y"
  by (simp add: ddiv_def toDouble_nonneg)

lemma hoursLoggedIn_nonneg: "0 \<le> hoursLoggedIn p w"
  by (simp add: hoursLoggedIn_def SLOT_MINUTES_def dmul_nonneg ddiv_nonneg)

lemma Math_round_nonneg: "0 \<le> x \<Longrightarrow> 0 \<le> Math_round x"
  by (simp add: Math_round_def)

lemma Math_round_nearest: "of_int (Math_round x) - 1 / 2 \<le> x \<and> x < of_int (Math_round x) + 1 / 2"
  unfolding Math_round_def by linarith

lemma Math_round_le: "x < of_int n + 1 / 2 \<Longrightarrow> Math_round x \<le> n"
  unfolding Math_round_def by linarith

text \<open>The loop adds one term for every earlier week that holds a block, in the order of
  the week keys.\<close>

lemma carryover_loop_sorted:
  "sorted (map w_weekKey ws) \<Longrightarrow>
   carryover_loop key p ws c =
     foldl (\<lambda>c w. dadd c (dsub (p_weeklyHourTarget p) (hoursLoggedIn p w))) c
       (filter (\<lambda>w. w_weekKey w < key \<and> w_blocks w \<noteq> []) ws)"
proof (induction ws arbitrary: c)
  case Nil
  then show ?case by simp
next
  case (Cons w ws)
  show ?case
  proof (cases "key \<le> w_weekKey w")
    case True
    with Cons.prems have "\<forall>x \<in> set (w # ws). \<not> w_weekKey x < key"
      by (auto simp: not_less intro: order_trans)
    then have "filter (\<lambda>w. w_weekKey w < key \<and> w_blocks w \<noteq> []) (w # ws) = []"
      by (simp add: filter_empty_conv)
    with True show ?thesis by simp
  next
    case False
    then have lt: "w_weekKey w < key" by simp
    from Cons.prems have "sorted (map w_weekKey ws)" by simp
    then show ?thesis
      using False lt by (simp add: Cons.IH)
  qed
qed

lemma carryover_of_state:
  "carryover_loop (getWeekKey cal (currentMonday s)) p (sort_key w_weekKey (weeks (appData s))) 0 =
     foldl (\<lambda>c w. dadd c (dsub (p_weeklyHourTarget p) (hoursLoggedIn p w))) 0
       (sort_key w_weekKey (priorWeeks cal s))"
  by (simp add: carryover_loop_sorted filter_sort priorWeeks_def)

lemma set_calculateProjectBalances:
  "set (calculateProjectBalances cal s) =
     projectBalance cal s (getWeekKey cal (currentMonday s))
       (sort_key w_weekKey (weeks (appData s))) ` set (projects (appData s))"
  by (simp add: calculateProjectBalances_def Let_def)

subsection \<open>Values of the double arithmetic\<close>

lemma slot_hours: "ddiv (of_int SLOT_MINUTES) 60 = 1 / 2"
  unfolding SLOT_MINUTES_def by code_simp

lemma tenth: "toDouble (1 / 10) = 3602879701896397 / 36028797018963968"
  by code_simp

text \<open>A tie goes to the even significand, and the sum 0.1 + 0.2 is 0.30000000000000004.\<close>

lemma toDouble_examples:
  "toDouble (2 ^ 53 + 1) = 2 ^ 53"
  "toDouble (2 ^ 53 + 3) = 2 ^ 53 + 4"
  "dadd (toDouble (1 / 10)) (toDouble (2 / 10)) = 1351079888211149 / 4503599627370496"
  by code_simp+

lemma double_values:
  "dsub 10 6 = 4" "dadd 0 4 = 4" "dadd 10 4 = 14"
  "dmul 10 (toDouble (1 / 10)) = 1" "dadd 10 1 = 11" "dsub 10 1 = 9"
  by code_simp+

lemma percent_5_of_14: "Math_round (dmul (ddiv 5 14) 100) = 36"
  by code_simp

lemma more_double_values:
  "dmul 10 (1 / 2) = 5" "dmul 12 (1 / 2) = 6" "dmul 1 (1 / 2) = 1 / 2" "dmul 0 (1 / 2) = 0"
  "dmul 23 (1 / 2) = 23 / 2"
  "dsub 5 (1 / 2) = 9 / 2" "dadd 0 (9 / 2) = 9 / 2" "dadd 5 (9 / 2) = 19 / 2"
  "dmul 5 (toDouble (1 / 10)) = 1 / 2" "dadd 5 (1 / 2) = 11 / 2"
  "dadd 20 0 = 20" "dmul 20 (toDouble (1 / 10)) = 2" "dadd 20 2 = 22" "dsub 20 2 = 18"
  by code_simp+

lemma percent_0_of_19_halves: "Math_round (dmul (ddiv 0 (19 / 2)) 100) = 0"
  by code_simp

lemma percent_23_halves_of_20:
  "dmul (ddiv (23 / 2) 20) 100 = 8092405580431359 / 140737488355328"
  "Math_round (8092405580431359 / 140737488355328) = 57"
  by code_simp+

text \<open>Three times 2.4 hours of carryover add up to 7.199999999999999.\<close>

lemma ex_three_weeks_carryover:
  "carryover_loop ''2026-W07'' ex_projectD ex_three_weeks 0 = 2026619832316723 / 281474976710656"
  by code_simp

text \<open>
  C7. For every entry that \<^verbatim>\<open>calculateProjectBalances\<close> returns (there is one for every
  project), with \<open>currentHours\<close> the hours of the project in the current week and
  \<open>effectiveAvailable\<close> its target plus its carryover: the value computed for
  \<open>percentComplete\<close> is \<open>round (currentHours / effectiveAvailable * 100)\<close> when
  \<open>effectiveAvailable > 0\<close>, the quotient and the product being those of double
  arithmetic and the rounding the one to the nearest integer, a half going up; otherwise
  it is 100 when \<open>currentHours > 0\<close> and 0 when \<open>currentHours = 0\<close>. The value returned
  is the smaller of that value and 100, so it never exceeds 100. Nothing is clamped from
  below, and nothing needs to be: the value is never negative.
\<close>

theorem percentComplete_cases:
  "pb_project ` set (calculateProjectBalances cal s) = set (projects (appData s)) \<and>
   (\<forall>b \<in> set (calculateProjectBalances cal s).
      pb_currentWeekLogged b = hoursLoggedIn (pb_project b) (getCurrentWeekData cal s) \<and>
      pb_effectiveAvailable b = dadd (p_weeklyHourTarget (pb_project b)) (pb_carryoverBalance b) \<and>
      (pb_effectiveAvailable b > 0 \<longrightarrow>
         pb_percentComplete b =
           min (Math_round (dmul (ddiv (pb_currentWeekLogged b) (pb_effectiveAvailable b)) 100)) 100) \<and>
      (pb_effectiveAvailable b > 0 \<and>
       dmul (ddiv (pb_currentWeekLogged b) (pb_effectiveAvailable b)) 100 < 201 / 2 \<longrightarrow>
         of_int (pb_percentComplete b) - 1 / 2
           \<le> dmul (ddiv (pb_currentWeekLogged b) (pb_effectiveAvailable b)) 100 \<and>
         dmul (ddiv (pb_currentWeekLogged b) (pb_effectiveAvailable b)) 100
           < of_int (pb_percentComplete b) + 1 / 2) \<and>
      (pb_effectiveAvailable b \<le> 0 \<and> pb_currentWeekLogged b > 0 \<longrightarrow> pb_percentComplete b = 100) \<and>
      (pb_effectiveAvailable b \<le> 0 \<and> pb_currentWeekLogged b = 0 \<longrightarrow> pb_percentComplete b = 0) \<and>
      pb_percentComplete b \<le> 100 \<and> 0 \<le> pb_percentComplete b)"
proof -
  let ?key = "getWeekKey cal (currentMonday s)"
  let ?sorted = "sort_key w_weekKey (weeks (appData s))"
  have proj: "pb_project (projectBalance cal s ?key ?sorted p) = p" for p
    by (simp add: projectBalance_def Let_def)
  have all: "pb_project ` set (calculateProjectBalances cal s) = set (projects (appData s))"
    by (simp add: set_calculateProjectBalances image_image proj)
  have each: "pb_currentWeekLogged b = hoursLoggedIn (pb_project b) (getCurrentWeekData cal s) \<and>
      pb_effectiveAvailable b = dadd (p_weeklyHourTarget (pb_project b)) (pb_carryoverBalance b) \<and>
      (pb_effectiveAvailable b > 0 \<longrightarrow>
         pb_percentComplete b =
           min (Math_round (dmul (ddiv (pb_currentWeekLogged b) (pb_effectiveAvailable b)) 100)) 100) \<and>
      (pb_effectiveAvailable b > 0 \<and>
       dmul (ddiv (pb_currentWeekLogged b) (pb_effectiveAvailable b)) 100 < 201 / 2 \<longrightarrow>
         of_int (pb_percentComplete b) - 1 / 2
           \<le> dmul (ddiv (pb_currentWeekLogged b) (pb_effectiveAvailable b)) 100 \<and>
         dmul (ddiv (pb_currentWeekLogged b) (pb_effectiveAvailable b)) 100
           < of_int (pb_percentComplete b) + 1 / 2) \<and>
      (pb_effectiveAvailable b \<le> 0 \<and> pb_currentWeekLogged b > 0 \<longrightarrow> pb_percentComplete b = 100) \<and>
      (pb_effectiveAvailable b \<le> 0 \<and> pb_currentWeekLogged b = 0 \<longrightarrow> pb_percentComplete b = 0) \<and>
      pb_percentComplete b \<le> 100 \<and> 0 \<le> pb_percentComplete b"
    if "b \<in> set (calculateProjectBalances cal s)" for b
  proof -
    from that obtain p where b: "b = projectBalance cal s ?key ?sorted p"
      by (auto simp: set_calculateProjectBalances)
    let ?c = "hoursLoggedIn p (getCurrentWeekData cal s)"
    let ?e = "dadd (p_weeklyHourTarget p) (carryover_loop ?key p ?sorted 0)"
    let ?v = "dmul (ddiv ?c ?e) 100"
    have c0: "0 \<le> ?c" by (rule hoursLoggedIn_nonneg)
    have v0: "0 \<le> ?v" if "0 < ?e"
      using that c0 by (intro dmul_nonneg ddiv_nonneg) simp_all
    have r0: "0 \<le> Math_round ?v" if "0 < ?e"
      using v0[OF that] by (rule Math_round_nonneg)
    have near: "of_int (min (Math_round ?v) 100) - 1 / 2 \<le> ?v \<and>
        ?v < of_int (min (Math_round ?v) 100) + 1 / 2" if "?v < 201 / 2"
    proof -
      from that have "?v < of_int 100 + 1 / 2" by simp
      then have "Math_round ?v \<le> 100" by (rule Math_round_le)
      then have "min (Math_round ?v) 100 = Math_round ?v" by simp
      then show ?thesis using Math_round_nearest[of ?v] by simp
    qed
    have fields: "pb_currentWeekLogged b = ?c" "pb_effectiveAvailable b = ?e"
      "pb_project b = p" "pb_carryoverBalance b = carryover_loop ?key p ?sorted 0"
      "pb_percentComplete b =
         min (if 0 < ?e then Math_round ?v else if 0 < ?c then 100 else 0) 100"
      by (simp_all add: b projectBalance_def Let_def)
    show ?thesis
      unfolding fields using c0 r0 near by auto
  qed
  from all each show ?thesis by blast
qed

lemma ex_halves_key: "getWeekKey utc (currentMonday ex_halves) = ''2026-W07''"
  by (simp add: ex_halves_def ex_monday_key)

lemma ex_halves_current:
  "w_blocks (getCurrentWeekData utc ex_halves) =
     freshBlocks 1 0 Monday
       [0, 1, 2, 3, 4, 5, 6, 7, 8, 9, 10, 11, 12, 13, 14, 15, 16, 17, 18, 19, 20, 21, 22]"
  by (simp add: getCurrentWeekData_def ex_halves_key) (simp add: ex_halves_def)

lemma ex_halves_hours: "hoursLoggedIn ex_projectC (getCurrentWeekData utc ex_halves) = 23 / 2"
  by (simp add: hoursLoggedIn_def ex_halves_current slot_hours ex_projectC_def more_double_values)

lemma ex_halves_prior: "priorWeeks utc ex_halves = []"
  by (simp add: priorWeeks_def ex_halves_key) (simp add: ex_halves_def)

lemma ex_halves_carryover:
  "carryover_loop ''2026-W07'' ex_projectC (sort_key w_weekKey (weeks (appData ex_halves))) 0 = 0"
  using carryover_of_state [of utc ex_halves ex_projectC]
  by (simp add: ex_halves_key ex_halves_prior)

lemma ex_halves_balances:
  "calculateProjectBalances utc ex_halves =
     [\<lparr> pb_project = ex_projectC, pb_weeklyTarget = 20, pb_currentWeekLogged = 23 / 2,
        pb_carryoverBalance = 0, pb_effectiveAvailable = 20, pb_percentComplete = 57,
        pb_standing = Under \<rparr>]"
proof -
  have ps: "projects (appData ex_halves) = [ex_projectC]"
    by (simp add: ex_halves_def)
  have target: "p_weeklyHourTarget ex_projectC = 20"
    by (simp add: ex_projectC_def)
  show ?thesis
    by (simp add: calculateProjectBalances_def Let_def ex_halves_key ps projectBalance_def
        ex_halves_hours ex_halves_carryover target more_double_values percent_23_halves_of_20)
qed

theorem percentComplete_cases_example:
  "calculateProjectBalances utc ex_halves ! 0 \<in> set (calculateProjectBalances utc ex_halves) \<and>
   pb_project (calculateProjectBalances utc ex_halves ! 0) = ex_projectC \<and>
   pb_currentWeekLogged (calculateProjectBalances utc ex_halves ! 0) = 23 / 2 \<and>
   pb_effectiveAvailable (calculateProjectBalances utc ex_halves ! 0) = 20 \<and>
   dmul (ddiv (23 / 2) 20) 100 = 8092405580431359 / 140737488355328 \<and>
   pb_percentComplete (calculateProjectBalances utc ex_halves ! 0) =
     min (Math_round (dmul (ddiv (23 / 2) 20) 100)) 100 \<and>
   pb_percentComplete (calculateProjectBalances utc ex_halves ! 0) = 57"
proof -
  have mem: "calculateProjectBalances utc ex_halves ! 0 \<in> set (calculateProjectBalances utc ex_halves)"
    by (simp add: ex_halves_balances)
  have "pb_effectiveAvailable (calculateProjectBalances utc ex_halves ! 0) > 0"
    by (simp add: ex_halves_balances)
  with percentComplete_cases [of utc ex_halves] mem
  have "pb_percentComplete (calculateProjectBalances utc ex_halves ! 0) =
      min (Math_round (dmul (ddiv (pb_currentWeekLogged (calculateProjectBalances utc ex_halves ! 0))
        (pb_effectiveAvailable (calculateProjectBalances utc ex_halves ! 0))) 100)) 100"
    by blast
  with mem show ?thesis
    by (simp add: ex_halves_balances percent_23_halves_of_20)
qed

lemma ex_history_key: "getWeekKey utc (currentMonday ex_history) = ''2026-W07''"
  by (simp add: ex_history_def ex_monday_key)

lemma ex_history_current:
  "getCurrentWeekData utc ex_history =
     \<lparr> w_weekKey = ''2026-W07'', w_startDate = ''2026-02-09'',
       w_blocks = freshBlocks 20 0 Tuesday [0, 1, 2, 3, 4, 5, 6, 7, 8, 9] \<rparr>"
  by (simp add: getCurrentWeekData_def ex_history_key) (simp add: ex_history_def)

lemma ex_history_prior:
  "priorWeeks utc ex_history =
     [\<lparr> w_weekKey = ''2026-W06'', w_startDate = ''2026-02-02'',
        w_blocks = \<lparr> b_id = 2, b_projectId = 1, b_day = Friday, b_slotIndex = 0 \<rparr>
          # freshBlocks 3 0 Monday [0, 1, 2, 3, 4, 5, 6, 7, 8, 9, 10, 11] \<rparr>]"
  by (simp add: priorWeeks_def ex_history_key) (simp add: ex_history_def)

lemma ex_history_hours:
  "hoursLoggedIn ex_projectA (getCurrentWeekData utc ex_history) = 5"
  "hoursLoggedIn ex_projectB (getCurrentWeekData utc ex_history) = 0"
  by (simp_all add: ex_history_current hoursLoggedIn_def slot_hours ex_projectA_def
      ex_projectB_def more_double_values)

lemma ex_history_prior_hours:
  "hoursLoggedIn ex_projectA \<lparr> w_weekKey = ''2026-W06'', w_startDate = ''2026-02-02'',
        w_blocks = \<lparr> b_id = 2, b_projectId = 1, b_day = Friday, b_slotIndex = 0 \<rparr>
          # freshBlocks 3 0 Monday [0, 1, 2, 3, 4, 5, 6, 7, 8, 9, 10, 11] \<rparr> = 6"
  "hoursLoggedIn ex_projectB \<lparr> w_weekKey = ''2026-W06'', w_startDate = ''2026-02-02'',
        w_blocks = \<lparr> b_id = 2, b_projectId = 1, b_day = Friday, b_slotIndex = 0 \<rparr>
          # freshBlocks 3 0 Monday [0, 1, 2, 3, 4, 5, 6, 7, 8, 9, 10, 11] \<rparr> = 1 / 2"
  by (simp_all add: hoursLoggedIn_def slot_hours ex_projectA_def ex_projectB_def
      more_double_values)

lemma ex_history_carryover:
  "carryover_loop ''2026-W07'' ex_projectA (sort_key w_weekKey (weeks (appData ex_history))) 0 = 4"
  "carryover_loop ''2026-W07'' ex_projectB (sort_key w_weekKey (weeks (appData ex_history))) 0 = 9 / 2"
proof -
  define week where "week = \<lparr> w_weekKey = ''2026-W06'', w_startDate = ''2026-02-02'',
        w_blocks = \<lparr> b_id = 2, b_projectId = 1, b_day = Friday, b_slotIndex = 0 \<rparr>
          # freshBlocks 3 0 Monday [0, 1, 2, 3, 4, 5, 6, 7, 8, 9, 10, 11] \<rparr>"
  have prior: "priorWeeks utc ex_history = [week]"
    unfolding week_def by (rule ex_history_prior)
  have hours: "hoursLoggedIn ex_projectA week = 6" "hoursLoggedIn ex_projectB week = 1 / 2"
    unfolding week_def by (rule ex_history_prior_hours)+
  have targets: "p_weeklyHourTarget ex_projectA = 10" "p_weeklyHourTarget ex_projectB = 5"
    by (simp_all add: ex_projectA_def ex_projectB_def)
  show "carryover_loop ''2026-W07'' ex_projectA (sort_key w_weekKey (weeks (appData ex_history))) 0 = 4"
    using carryover_of_state [of utc ex_history ex_projectA]
    by (simp add: ex_history_key prior hours targets double_values)
  show "carryover_loop ''2026-W07'' ex_projectB (sort_key w_weekKey (weeks (appData ex_history))) 0 = 9 / 2"
    using carryover_of_state [of utc ex_history ex_projectB]
    by (simp add: ex_history_key prior hours targets more_double_values)
qed

lemma ex_history_balanceA:
  "projectBalance utc ex_history ''2026-W07'' (sort_key w_weekKey (weeks (appData ex_history)))
     ex_projectA =
     \<lparr> pb_project = ex_projectA, pb_weeklyTarget = 10, pb_currentWeekLogged = 5,
       pb_carryoverBalance = 4, pb_effectiveAvailable = 14, pb_percentComplete = 36,
       pb_standing = Under \<rparr>"
proof -
  have target: "p_weeklyHourTarget ex_projectA = 10"
    by (simp add: ex_projectA_def)
  show ?thesis
    by (simp add: projectBalance_def Let_def ex_history_hours ex_history_carryover target
        double_values percent_5_of_14)
qed

lemma ex_history_balanceB:
  "projectBalance utc ex_history ''2026-W07'' (sort_key w_weekKey (weeks (appData ex_history)))
     ex_projectB =
     \<lparr> pb_project = ex_projectB, pb_weeklyTarget = 5, pb_currentWeekLogged = 0,
       pb_carryoverBalance = 9 / 2, pb_effectiveAvailable = 19 / 2, pb_percentComplete = 0,
       pb_standing = Under \<rparr>"
proof -
  have target: "p_weeklyHourTarget ex_projectB = 5"
    by (simp add: ex_projectB_def)
  show ?thesis
    by (simp add: projectBalance_def Let_def ex_history_hours ex_history_carryover target
        more_double_values percent_0_of_19_halves)
qed

lemma ex_history_balances:
  "calculateProjectBalances utc ex_history =
     [\<lparr> pb_project = ex_projectA, pb_weeklyTarget = 10, pb_currentWeekLogged = 5,
        pb_carryoverBalance = 4, pb_effectiveAvailable = 14, pb_percentComplete = 36,
        pb_standing = Under \<rparr>,
      \<lparr> pb_project = ex_projectB, pb_weeklyTarget = 5, pb_currentWeekLogged = 0,
        pb_carryoverBalance = 9 / 2, pb_effectiveAvailable = 19 / 2, pb_percentComplete = 0,
        pb_standing = Under \<rparr>]"
proof -
  have ps: "projects (appData ex_history) = [ex_projectB, ex_projectA]"
    by (simp add: ex_history_def)
  have prio: "p_priority ex_projectA = High" "p_priority ex_projectB = Low"
    by (simp_all add: ex_projectA_def ex_projectB_def)
  show ?thesis
    by (simp add: calculateProjectBalances_def Let_def ex_history_key ps ex_history_balanceA
        ex_history_balanceB prio priorityOrder_def)
qed

text \<open>
  C2. Let a project have a weekly target of 10 hours, let exactly one week before the
  current one hold any block, with 6 hours of the project in it, and let the project have
  5 hours in the current week. Then \<^verbatim>\<open>calculateProjectBalances\<close> has an entry for the
  project, and every entry for it has carryover 4, effective available hours 14, 36 percent
  complete and the standing "under".
\<close>

theorem balance_under_example:
  assumes "project \<in> set (projects (appData s))"
    and "p_weeklyHourTarget project = 10"
    and "priorWeeks cal s = [week]"
    and "hoursLoggedIn project week = 6"
    and "hoursLoggedIn project (getCurrentWeekData cal s) = 5"
  shows "balancesOf cal s project \<noteq> [] \<and>
         (\<forall>b \<in> set (balancesOf cal s project).
            pb_carryoverBalance b = 4 \<and> pb_effectiveAvailable b = 14 \<and>
            pb_percentComplete b = 36 \<and> pb_standing b = Under \<and>
            pb_weeklyTarget b = 10 \<and> pb_currentWeekLogged b = 5)"
proof -
  let ?key = "getWeekKey cal (currentMonday s)"
  let ?sorted = "sort_key w_weekKey (weeks (appData s))"
  let ?b = "projectBalance cal s ?key ?sorted project"
  have carry: "carryover_loop ?key project ?sorted 0 = 4"
    by (simp add: carryover_of_state assms double_values)
  have entry: "?b = \<lparr> pb_project = project, pb_weeklyTarget = 10, pb_currentWeekLogged = 5,
      pb_carryoverBalance = 4, pb_effectiveAvailable = 14, pb_percentComplete = 36,
      pb_standing = Under \<rparr>"
    by (simp add: projectBalance_def Let_def carry assms double_values percent_5_of_14)
  have "?b \<in> set (calculateProjectBalances cal s)"
    using assms(1) by (simp add: set_calculateProjectBalances)
  then have "?b \<in> set (balancesOf cal s project)"
    by (simp add: balancesOf_def entry)
  then have nonempty: "balancesOf cal s project \<noteq> []"
    by auto
  have "pb_carryoverBalance b = 4 \<and> pb_effectiveAvailable b = 14 \<and>
      pb_percentComplete b = 36 \<and> pb_standing b = Under \<and>
      pb_weeklyTarget b = 10 \<and> pb_currentWeekLogged b = 5"
    if "b \<in> set (balancesOf cal s project)" for b
  proof -
    from that obtain p where "b = projectBalance cal s ?key ?sorted p" and "pb_project b = project"
      by (auto simp: balancesOf_def set_calculateProjectBalances)
    then have "b = ?b" by (simp add: projectBalance_def Let_def)
    then show ?thesis by (simp add: entry)
  qed
  then show ?thesis
    using nonempty by blast
qed

theorem balance_under_example_instance:
  "ex_projectA \<in> set (projects (appData ex_history)) \<and>
   p_weeklyHourTarget ex_projectA = 10 \<and>
   length (priorWeeks utc ex_history) = 1 \<and>
   hoursLoggedIn ex_projectA (hd (priorWeeks utc ex_history)) = 6 \<and>
   hoursLoggedIn ex_projectA (getCurrentWeekData utc ex_history) = 5 \<and>
   map pb_carryoverBalance (balancesOf utc ex_history ex_projectA) = [4] \<and>
   map pb_effectiveAvailable (balancesOf utc ex_history ex_projectA) = [14] \<and>
   map pb_percentComplete (balancesOf utc ex_history ex_projectA) = [36] \<and>
   map pb_standing (balancesOf utc ex_history ex_projectA) = [Under]"
proof -
  have h1: "ex_projectA \<in> set (projects (appData ex_history))"
    by (simp add: ex_history_def)
  have h2: "p_weeklyHourTarget ex_projectA = 10"
    by (simp add: ex_projectA_def)
  have h5: "hoursLoggedIn ex_projectA (getCurrentWeekData utc ex_history) = 5"
    by (simp add: ex_history_hours)
  have only: "balancesOf utc ex_history ex_projectA =
      [\<lparr> pb_project = ex_projectA, pb_weeklyTarget = 10, pb_currentWeekLogged = 5,
         pb_carryoverBalance = 4, pb_effectiveAvailable = 14, pb_percentComplete = 36,
         pb_standing = Under \<rparr>]"
    by (simp add: balancesOf_def ex_history_balances) (simp add: ex_projectA_def ex_projectB_def)
  from balance_under_example [OF h1 h2 ex_history_prior ex_history_prior_hours(1) h5]
    h1 h2 ex_history_prior_hours(1) h5
  show ?thesis
    by (simp add: only ex_history_prior)
qed

subsection \<open>Week keys\<close>

lemma digit_code: "i < 10 \<Longrightarrow> of_char (''0123456789'' ! i) = (48 + i :: nat)"
proof -
  assume "i < 10"
  then have "i \<in> {0, 1, 2, 3, 4, 5, 6, 7, 8, 9}" by auto
  then show ?thesis by auto
qed

lemma digit_le: "i < 10 \<Longrightarrow> j < 10 \<Longrightarrow> (''0123456789'' ! i \<le> ''0123456789'' ! j) = (i \<le> j)"
  unfolding less_eq_char_def by (simp only: digit_code) simp

lemma digit_less: "i < 10 \<Longrightarrow> j < 10 \<Longrightarrow> (''0123456789'' ! i < ''0123456789'' ! j) = (i < j)"
  unfolding less_char_def by (simp only: digit_code) simp

lemma digit_eq: "i < 10 \<Longrightarrow> j < 10 \<Longrightarrow> (''0123456789'' ! i = ''0123456789'' ! j) = (i = j)"
  using digit_code[of i] digit_code[of j] by (metis add_left_cancel)

lemma digits_small: "n < 10 \<Longrightarrow> digits n = [''0123456789'' ! n]"
  by (subst digits.simps) simp

lemma digits_two: "10 \<le> n \<Longrightarrow> n < 100 \<Longrightarrow>
    digits n = [''0123456789'' ! (n div 10), ''0123456789'' ! (n mod 10)]"
  by (subst digits.simps) (simp add: digits_small)

lemma two_digits:
  assumes "0 \<le> n" and "n < 100"
  shows "padStart 2 CHR ''0'' (numberToString n) =
           [''0123456789'' ! (nat n div 10), ''0123456789'' ! (nat n mod 10)]"
proof (cases "nat n < 10")
  case True
  with assms show ?thesis
    by (simp add: padStart_def numberToString_def digits_small)
next
  case False
  with assms have "digits (nat n) = [''0123456789'' ! (nat n div 10), ''0123456789'' ! (nat n mod 10)]"
    by (intro digits_two) simp_all
  with assms show ?thesis
    by (simp add: padStart_def numberToString_def)
qed

lemma two_digits_mono:
  assumes "0 \<le> a" and "a \<le> b" and "b < 100"
  shows "padStart 2 CHR ''0'' (numberToString a) \<le> padStart 2 CHR ''0'' (numberToString b)"
proof -
  have a: "nat a div 10 < 10" "nat a mod 10 < 10" and b: "nat b div 10 < 10" "nat b mod 10 < 10"
    using assms by simp_all
  have le: "nat a \<le> nat b" using assms by simp
  then have div: "nat a div 10 \<le> nat b div 10"
    by (rule div_le_mono)
  have mod: "nat a mod 10 \<le> nat b mod 10" if "nat a div 10 = nat b div 10"
  proof -
    have "nat a = 10 * (nat a div 10) + nat a mod 10" "nat b = 10 * (nat b div 10) + nat b mod 10"
      by simp_all
    with that le show ?thesis by linarith
  qed
  have pa: "padStart 2 CHR ''0'' (numberToString a) =
      [''0123456789'' ! (nat a div 10), ''0123456789'' ! (nat a mod 10)]"
    using assms by (intro two_digits) simp_all
  have pb: "padStart 2 CHR ''0'' (numberToString b) =
      [''0123456789'' ! (nat b div 10), ''0123456789'' ! (nat b mod 10)]"
    using assms by (intro two_digits) simp_all
  show ?thesis
  proof (cases "nat a div 10 = nat b div 10")
    case True
    then have "''0123456789'' ! (nat a mod 10) \<le> ''0123456789'' ! (nat b mod 10)"
      using mod digit_le[OF a(2) b(2)] by blast
    then have "[''0123456789'' ! (nat a mod 10)] \<le> [''0123456789'' ! (nat b mod 10)]"
      by (simp add: le_less)
    with True show ?thesis
      unfolding pa pb by (simp only: Cons_le_Cons) simp
  next
    case False
    with div have "nat a div 10 < nat b div 10" by simp
    then have "''0123456789'' ! (nat a div 10) < ''0123456789'' ! (nat b div 10)"
      using digit_less[OF a(1) b(1)] by blast
    then show ?thesis
      unfolding pa pb by (simp only: Cons_le_Cons) simp
  qed
qed

lemma append_le_append: "(xs @ ys \<le> xs @ zs) = (ys \<le> (zs :: 'a :: linorder list))"
  by (induction xs) simp_all

lemma weekNum_mono:
  assumes "x \<le> y"
  shows "\<lceil>(of_int x :: rat) / 7\<rceil> \<le> \<lceil>(of_int y :: rat) / 7\<rceil>"
  using assms by (intro ceiling_mono divide_right_mono) simp_all

lemma weekNum_lower:
  assumes "1 \<le> x"
  shows "0 \<le> \<lceil>(of_int x :: rat) / 7\<rceil>"
proof -
  have "(0 :: rat) \<le> of_int x / 7" using assms by simp
  then have "\<lceil>0 :: rat\<rceil> \<le> \<lceil>(of_int x :: rat) / 7\<rceil>" by (rule ceiling_mono)
  then show ?thesis by simp
qed

lemma weekNum_upper:
  assumes "y \<le> 693"
  shows "\<lceil>(of_int y :: rat) / 7\<rceil> < 100"
proof -
  have "(of_int y :: rat) \<le> 693" using assms by (metis of_int_le_iff of_int_numeral)
  then have "(of_int y :: rat) / 7 \<le> 99" by simp
  then have "\<lceil>(of_int y :: rat) / 7\<rceil> \<le> \<lceil>99 :: rat\<rceil>" by (rule ceiling_mono)
  then show ?thesis by simp
qed

text \<open>
  C9. Let \<open>m1\<close> and \<open>m2\<close> be two dates of the same calendar year, \<open>m1\<close> not after \<open>m2\<close>:
  the host gives both the same year, neither is before the local midnight of January 1st
  of that year as \<^verbatim>\<open>new Date(year, 0, 1)\<close> gives it, and \<open>m2\<close> is less than 367 days after
  it. Then the week key of \<open>m1\<close> is at most the week key of \<open>m2\<close> in the order of strings
  by code unit. (That the dates are Mondays is not needed. The day of the week is a number
  from 0 to 6. The second hypothesis holds for the four-digit years the key format is made
  for; a host maps a year from 0 to 99 given to \<^verbatim>\<open>new Date(year, 0, 1)\<close> to 1900 + year,
  and such years are not covered.)
\<close>

theorem getWeekKey_monotone:
  assumes "getFullYear cal m1 = getFullYear cal m2"
    and "newDate cal (getFullYear cal m1) 0 1 \<le> m1"
    and "m1 \<le> m2"
    and "m2 < newDate cal (getFullYear cal m1) 0 1 + 367 * 86400000"
    and "0 \<le> getDay cal (newDate cal (getFullYear cal m1) 0 1)"
    and "getDay cal (newDate cal (getFullYear cal m1) 0 1) \<le> 6"
  shows "getWeekKey cal m1 \<le> getWeekKey cal m2"
proof -
  let ?jan1 = "newDate cal (getFullYear cal m1) 0 1"
  let ?g = "getDay cal ?jan1"
  let ?d1 = "(m1 - ?jan1) div 86400000" and ?d2 = "(m2 - ?jan1) div 86400000"
  let ?n1 = "\<lceil>(of_int (?d1 + ?g + 1) :: rat) / 7\<rceil>"
  let ?n2 = "\<lceil>(of_int (?d2 + ?g + 1) :: rat) / 7\<rceil>"
  have d1: "0 \<le> ?d1"
    using assms(2) by (simp add: pos_imp_zdiv_nonneg_iff)
  have d12: "?d1 \<le> ?d2"
    using assms(3) by (intro zdiv_mono1) simp_all
  have "m2 - ?jan1 < 367 * 86400000"
    using assms(4) by simp
  then have d2: "?d2 < 367"
    by (simp add: div_less_iff_less_mult)
  have lower: "0 \<le> ?n1"
    using d1 assms(5) by (intro weekNum_lower) simp
  have mono: "?n1 \<le> ?n2"
    using d12 by (intro weekNum_mono) simp
  have upper: "?n2 < 100"
    using d2 assms(6) by (intro weekNum_upper) simp
  have pads: "padStart 2 CHR ''0'' (numberToString ?n1) \<le> padStart 2 CHR ''0'' (numberToString ?n2)"
    using lower mono upper by (rule two_digits_mono)
  have k1: "getWeekKey cal m1 =
      (numberToString (getFullYear cal m1) @ ''-W'') @ padStart 2 CHR ''0'' (numberToString ?n1)"
    by (simp add: getWeekKey_def Let_def)
  have k2: "getWeekKey cal m2 =
      (numberToString (getFullYear cal m1) @ ''-W'') @ padStart 2 CHR ''0'' (numberToString ?n2)"
    by (simp add: getWeekKey_def Let_def assms(1)[symmetric])
  show ?thesis
    unfolding k1 k2 append_le_append by (rule pads)
qed

lemma ex_year: "getFullYear utc ex_monday_jan = 2026" "getFullYear utc ex_monday = 2026"
  unfolding ex_monday_jan_def ex_monday_def by code_simp+

lemma ex_jan1: "newDate utc 2026 0 1 = 1767225600000" "getDay utc 1767225600000 = 4"
  by code_simp+

lemma ex_monday_jan_key: "getWeekKey utc ex_monday_jan = ''2026-W02''"
  unfolding ex_monday_jan_def by code_simp

theorem getWeekKey_monotone_example:
  "getFullYear utc ex_monday_jan = getFullYear utc ex_monday \<and>
   ex_monday_jan \<le> ex_monday \<and>
   getWeekKey utc ex_monday_jan = ''2026-W02'' \<and>
   getWeekKey utc ex_monday = ''2026-W07'' \<and>
   getWeekKey utc ex_monday_jan \<le> getWeekKey utc ex_monday"
proof -
  have h1: "getFullYear utc ex_monday_jan = getFullYear utc ex_monday"
    by (simp add: ex_year)
  have h2: "newDate utc (getFullYear utc ex_monday_jan) 0 1 \<le> ex_monday_jan"
    unfolding ex_year ex_jan1 by (simp add: ex_monday_jan_def)
  have h3: "ex_monday_jan \<le> ex_monday"
    by (simp add: ex_monday_jan_def ex_monday_def)
  have h4: "ex_monday < newDate utc (getFullYear utc ex_monday_jan) 0 1 + 367 * 86400000"
    unfolding ex_year ex_jan1 by (simp add: ex_monday_def)
  have h5: "0 \<le> getDay utc (newDate utc (getFullYear utc ex_monday_jan) 0 1)"
    by (simp add: ex_year ex_jan1)
  have h6: "getDay utc (newDate utc (getFullYear utc ex_monday_jan) 0 1) \<le> 6"
    by (simp add: ex_year ex_jan1)
  from getWeekKey_monotone [OF h1 h2 h3 h4 h5 h6] h1 h3 show ?thesis
    by (simp add: ex_monday_jan_key ex_monday_key)
qed

end
